theory Spec2Isabelle
  imports Complex_Main
begin

section \<open>Numbers, vectors and exceptions\<close>

text \<open>
  The library computes with C++ \<open>double\<close> and Eigen vectors of them. A \<open>double\<close> is
  modelled as a real number extended by the two infinities and NaN, with the IEEE 754
  rules for them (a nonzero number divided by zero is infinite, zero times infinity is
  NaN, every comparison with NaN is false). The sign of zero is not modelled. The
  operators \<open>+\<close>, \<open>-\<close>, \<open>*\<close> and \<open>/\<close> of the type give the exact result on finite
  doubles; the rounding of binary64 is the function \<open>fl\<close> below, applied where a
  property depends on it.
\<close>

datatype double = Fin real | PInf | NInf | NaN

fun double_uminus :: "double \<Rightarrow> double" where
  "double_uminus (Fin x) = Fin (- x)"
| "double_uminus PInf = NInf"
| "double_uminus NInf = PInf"
| "double_uminus NaN = NaN"

fun double_abs :: "double \<Rightarrow> double" where
  "double_abs (Fin x) = Fin \<bar>x\<bar>"
| "double_abs PInf = PInf"
| "double_abs NInf = PInf"
| "double_abs NaN = NaN"

fun double_plus :: "double \<Rightarrow> double \<Rightarrow> double" where
  "double_plus (Fin x) (Fin y) = Fin (x + y)"
| "double_plus NaN _ = NaN"
| "double_plus _ NaN = NaN"
| "double_plus PInf NInf = NaN"
| "double_plus NInf PInf = NaN"
| "double_plus PInf _ = PInf"
| "double_plus NInf _ = NInf"
| "double_plus _ PInf = PInf"
| "double_plus _ NInf = NInf"

fun double_times :: "double \<Rightarrow> double \<Rightarrow> double" where
  "double_times (Fin x) (Fin y) = Fin (x * y)"
| "double_times NaN _ = NaN"
| "double_times _ NaN = NaN"
| "double_times (Fin x) PInf = (if x = 0 then NaN else if 0 < x then PInf else NInf)"
| "double_times (Fin x) NInf = (if x = 0 then NaN else if 0 < x then NInf else PInf)"
| "double_times PInf (Fin y) = (if y = 0 then NaN else if 0 < y then PInf else NInf)"
| "double_times NInf (Fin y) = (if y = 0 then NaN else if 0 < y then NInf else PInf)"
| "double_times PInf PInf = PInf"
| "double_times PInf NInf = NInf"
| "double_times NInf PInf = NInf"
| "double_times NInf NInf = PInf"

fun double_divide :: "double \<Rightarrow> double \<Rightarrow> double" where
  "double_divide (Fin x) (Fin y) =
     (if y \<noteq> 0 then Fin (x / y)
      else if x = 0 then NaN else if 0 < x then PInf else NInf)"
| "double_divide NaN _ = NaN"
| "double_divide _ NaN = NaN"
| "double_divide (Fin x) PInf = Fin 0"
| "double_divide (Fin x) NInf = Fin 0"
| "double_divide PInf (Fin y) = (if 0 \<le> y then PInf else NInf)"
| "double_divide NInf (Fin y) = (if 0 \<le> y then NInf else PInf)"
| "double_divide PInf PInf = NaN"
| "double_divide PInf NInf = NaN"
| "double_divide NInf PInf = NaN"
| "double_divide NInf NInf = NaN"

fun double_less :: "double \<Rightarrow> double \<Rightarrow> bool" where
  "double_less (Fin x) (Fin y) = (x < y)"
| "double_less NaN _ = False"
| "double_less _ NaN = False"
| "double_less _ NInf = False"
| "double_less PInf _ = False"
| "double_less NInf _ = True"
| "double_less _ PInf = True"

fun double_less_eq :: "double \<Rightarrow> double \<Rightarrow> bool" where
  "double_less_eq (Fin x) (Fin y) = (x \<le> y)"
| "double_less_eq NaN _ = False"
| "double_less_eq _ NaN = False"
| "double_less_eq NInf _ = True"
| "double_less_eq _ PInf = True"
| "double_less_eq _ NInf = False"
| "double_less_eq PInf _ = False"

instantiation double :: "{uminus, abs, plus, minus, times, inverse, ord}"
begin

definition uminus_double :: "double \<Rightarrow> double" where
  "uminus_double x = double_uminus x"

definition abs_double :: "double \<Rightarrow> double" where
  "abs_double x = double_abs x"

definition plus_double :: "double \<Rightarrow> double \<Rightarrow> double" where
  "plus_double x y = double_plus x y"

definition minus_double :: "double \<Rightarrow> double \<Rightarrow> double" where
  "minus_double x y = double_plus x (double_uminus y)"

definition times_double :: "double \<Rightarrow> double \<Rightarrow> double" where
  "times_double x y = double_times x y"

definition divide_double :: "double \<Rightarrow> double \<Rightarrow> double" where
  "divide_double x y = double_divide x y"

definition inverse_double :: "double \<Rightarrow> double" where
  "inverse_double x = double_divide (Fin 1) x"

definition less_double :: "double \<Rightarrow> double \<Rightarrow> bool" where
  "less_double x y = double_less x y"

definition less_eq_double :: "double \<Rightarrow> double \<Rightarrow> bool" where
  "less_eq_double x y = double_less_eq x y"

instance ..

end

text \<open>The C++ operator \<open>!=\<close> on doubles: true whenever an operand is NaN.\<close>

definition ne :: "double \<Rightarrow> double \<Rightarrow> bool" where
  "ne x y = (x = NaN \<or> y = NaN \<or> x \<noteq> y)"

text \<open>
  The rounding of the format: \<open>rnd\<close> takes the exact real result of an operation to
  the double that is stored (an infinity on overflow), and \<open>fl rnd\<close> applies it to a
  finite result. In the clamp of a joint state every arithmetic result passes through
  \<open>fl rnd\<close>, and \<open>rnd\<close> is a parameter: what is proved there holds for every rounding,
  that of binary64 included. \<open>Fin\<close> is the rounding that changes nothing.
\<close>

fun fl :: "(real \<Rightarrow> double) \<Rightarrow> double \<Rightarrow> double" where
  "fl rnd (Fin x) = rnd x"
| "fl rnd PInf = PInf"
| "fl rnd NInf = NInf"
| "fl rnd NaN = NaN"

text \<open>
  \<open>Eigen::VectorXd\<close> and \<open>Eigen::ArrayXd\<close> are lists of doubles, \<open>Eigen::MatrixXd\<close>
  is its two dimensions and its rows, \<open>Eigen::Vector3d\<close> and \<open>Eigen::Quaterniond\<close>
  are records of their coefficients.
\<close>

type_synonym VectorXd = "double list"

type_synonym ArrayXd = "double list"

record MatrixXd =
  rows :: nat
  cols :: nat
  coeffs :: "double list list"

record Vector3d =
  vx :: double
  vy :: double
  vz :: double

record Quaterniond =
  qw :: double
  qx :: double
  qy :: double
  qz :: double

definition Zero_vec :: "nat \<Rightarrow> VectorXd" where
  "Zero_vec n = replicate n (Fin 0)"

definition Ones :: "nat \<Rightarrow> ArrayXd" where
  "Ones n = replicate n (Fin 1)"

definition scale :: "double \<Rightarrow> double list \<Rightarrow> double list" where
  "scale l v = map (\<lambda>x. l * x) v"

definition vec_plus :: "VectorXd \<Rightarrow> VectorXd \<Rightarrow> VectorXd" where
  "vec_plus v w = map2 (+) v w"

definition vec_minus :: "VectorXd \<Rightarrow> VectorXd \<Rightarrow> VectorXd" where
  "vec_minus v w = map2 (-) v w"

definition cwise_product :: "ArrayXd \<Rightarrow> ArrayXd \<Rightarrow> ArrayXd" where
  "cwise_product l v = map2 (*) l v"

definition dot :: "double list \<Rightarrow> double list \<Rightarrow> double" where
  "dot r v = foldl (+) (Fin 0) (map2 (*) r v)"

definition mat_vec :: "MatrixXd \<Rightarrow> VectorXd \<Rightarrow> VectorXd" where
  "mat_vec m v = map (\<lambda>r. dot r v) (coeffs m)"

text \<open>
  A C++ loop \<open>for (i = 0; i < n; ++i) body\<close> over a state \<open>s\<close>.
\<close>

definition for_loop :: "nat \<Rightarrow> (nat \<Rightarrow> 'a \<Rightarrow> 'a) \<Rightarrow> 'a \<Rightarrow> 'a" where
  "for_loop n body s = fold body [0..<n] s"

text \<open>\<open>std::to_string\<close> of an unsigned integer: its decimal digits.\<close>

fun to_string :: "nat \<Rightarrow> string" where
  "to_string n =
     (if n < 10 then [char_of (48 + n)]
      else to_string (n div 10) @ [char_of (48 + n mod 10)])"

declare to_string.simps [simp del]

text \<open>
  The exceptions of \<open>state_representation::exceptions\<close>. Only \<open>JointNotFound\<close>
  carries its message in the model. \<open>OutOfRangeAccess\<close> is not an exception of the
  library: it stands for a coefficient access outside an Eigen vector or a
  \<open>std::vector\<close>, which C++ leaves undefined (Eigen asserts in debug builds).
\<close>

datatype error =
    EmptyState
  | IncompatibleStates
  | IncompatibleSize
  | JointNotFound string
  | InvalidCast
  | NotImplemented
  | OutOfRangeAccess

definition coeff_at :: "'a list \<Rightarrow> nat \<Rightarrow> error + 'a" where
  "coeff_at v i = (if i < length v then Inr (v ! i) else Inl OutOfRangeAccess)"

section \<open>State\<close>

text \<open>
  \<open>State.cpp\<close>. The timestamp of a state is the reading of a clock and is left out
  of the record: no function below depends on it. A member \<open>x_\<close> of a C++ class is the
  field \<open>m_x\<close> of its record.
\<close>

datatype StateType =
    STATE
  | SPATIAL_STATE
  | CARTESIAN_STATE
  | CARTESIAN_POSE
  | CARTESIAN_TWIST
  | CARTESIAN_ACCELERATION
  | CARTESIAN_WRENCH
  | JOINT_STATE
  | GEOMETRY_SHAPE
  | GEOMETRY_ELLIPSOID

record State =
  m_type :: StateType
  m_name :: string
  m_empty :: bool

definition State_default :: State where
  "State_default = \<lparr>m_type = STATE, m_name = [], m_empty = True\<rparr>"

definition State_of_name :: "string \<Rightarrow> State" where
  "State_of_name n = \<lparr>m_type = STATE, m_name = n, m_empty = True\<rparr>"

definition get_type :: "'a State_scheme \<Rightarrow> StateType" where
  "get_type s = m_type s"

definition get_name :: "'a State_scheme \<Rightarrow> string" where
  "get_name s = m_name s"

definition is_empty :: "'a State_scheme \<Rightarrow> bool" where
  "is_empty s = m_empty s"

definition set_type :: "StateType \<Rightarrow> 'a State_scheme \<Rightarrow> 'a State_scheme" where
  "set_type t s = s\<lparr>m_type := t\<rparr>"

definition set_name :: "string \<Rightarrow> 'a State_scheme \<Rightarrow> 'a State_scheme" where
  "set_name n s = s\<lparr>m_name := n\<rparr>"

definition set_empty :: "bool \<Rightarrow> 'a State_scheme \<Rightarrow> 'a State_scheme" where
  "set_empty e s = s\<lparr>m_empty := e\<rparr>"

definition State_initialize :: "'a State_scheme \<Rightarrow> 'a State_scheme" where
  "State_initialize s = s\<lparr>m_empty := True\<rparr>"

definition State_is_incompatible :: "'a State_scheme \<Rightarrow> 'b State_scheme \<Rightarrow> bool" where
  "State_is_incompatible s other = False"

text \<open>
  Modelled from the spec: the constructor of \<open>State\<close> from a type and a name, which
  the derived classes call, is not in \<open>State.cpp\<close>. Section 3: a state has a type tag,
  a name and the flag "empty"; section 4.1: empty is the default after construction.
\<close>

definition State_ctor :: "StateType \<Rightarrow> string \<Rightarrow> State" where
  "State_ctor t n = \<lparr>m_type = t, m_name = n, m_empty = True\<rparr>"

text \<open>
  Modelled from the spec: \<open>State::set_filled\<close> is defined in \<open>State.hpp\<close>, which is
  not among the sources. Section 3: "empty" becomes false the first time any field is
  explicitly set.
\<close>

definition set_filled :: "'a State_scheme \<Rightarrow> 'a State_scheme" where
  "set_filled s = s\<lparr>m_empty := False\<rparr>"

text \<open>
  Modelled from the spec: \<open>State::is_compatible\<close> is defined in \<open>State.hpp\<close>, which
  is not among the sources. Section 4.1: base State requires equal \<open>type\<close>. The
  functions below that call it take the base check as a parameter; this definition is
  the instance the spec describes.
\<close>

definition State_is_compatible :: "'a State_scheme \<Rightarrow> 'b State_scheme \<Rightarrow> bool" where
  "State_is_compatible s other = (m_type s = m_type other)"

section \<open>SpatialState\<close>

record SpatialState = State +
  m_reference_frame :: string

definition SpatialState_ctor :: "StateType \<Rightarrow> string \<Rightarrow> string \<Rightarrow> SpatialState" where
  "SpatialState_ctor t n r =
     \<lparr>m_type = t, m_name = n, m_empty = True, m_reference_frame = r\<rparr>"

definition SpatialState_default :: SpatialState where
  "SpatialState_default = SpatialState_ctor SPATIAL_STATE [] ''world''"

definition SpatialState_of_name :: "string \<Rightarrow> string \<Rightarrow> SpatialState" where
  "SpatialState_of_name n r = SpatialState_ctor SPATIAL_STATE n r"

definition get_reference_frame :: "'a SpatialState_scheme \<Rightarrow> string" where
  "get_reference_frame s = m_reference_frame s"

definition set_reference_frame ::
  "string \<Rightarrow> 'a SpatialState_scheme \<Rightarrow> 'a SpatialState_scheme" where
  "set_reference_frame r s = s\<lparr>m_reference_frame := r\<rparr>"

text \<open>
  The argument of \<open>is_incompatible\<close> is a reference to any \<open>State\<close>; the function
  casts it to \<open>SpatialState\<close>. The object behind the reference is either one with a
  \<open>SpatialState\<close> part (a \<open>SpatialState\<close> or a Cartesian state, seen through that
  part) or one without.
\<close>

datatype StateRef = NotSpatial State | Spatial SpatialState

fun dynamic_cast_SpatialState :: "StateRef \<Rightarrow> SpatialState option" where
  "dynamic_cast_SpatialState (Spatial s) = Some s"
| "dynamic_cast_SpatialState (NotSpatial s) = None"

definition SpatialState_is_incompatible ::
  "'a SpatialState_scheme \<Rightarrow> StateRef \<Rightarrow> error + bool" where
  "SpatialState_is_incompatible this state =
     (case dynamic_cast_SpatialState state of
        Some other \<Rightarrow>
          Inr (get_name this \<noteq> m_reference_frame other
               \<and> m_reference_frame this \<noteq> get_name other
               \<and> get_reference_frame this \<noteq> m_reference_frame other)
      | None \<Rightarrow> Inl InvalidCast)"

section \<open>JointState (space/joint/JointState.cpp)\<close>

text \<open>The selector \<open>JointStateVariable::ALL\<close> is \<open>ALL_VARIABLES\<close>.\<close>

datatype JointStateVariable = POSITIONS | VELOCITIES | ACCELERATIONS | TORQUES | ALL_VARIABLES

record JointState = State +
  m_names :: "string list"
  m_positions :: VectorXd
  m_velocities :: VectorXd
  m_accelerations :: VectorXd
  m_torques :: VectorXd

text \<open>A function that throws returns \<open>Inl\<close> of the exception; \<open>and_then\<close> sequences two calls.\<close>

definition and_then :: "error + 'a \<Rightarrow> ('a \<Rightarrow> error + 'b) \<Rightarrow> error + 'b" where
  "and_then r f = (case r of Inl e \<Rightarrow> Inl e | Inr x \<Rightarrow> f x)"

definition assert_index_in_range :: "nat \<Rightarrow> nat \<Rightarrow> error + unit" where
  "assert_index_in_range joint_index sz =
     (if joint_index > sz
      then Inl (JointNotFound (''Index '' @ [CHR 0x27] @ to_string joint_index @ [CHR 0x27]
                  @ '' is out of range for joint state with size'' @ to_string sz))
      else Inr ())"

definition get_size :: "JointState \<Rightarrow> nat" where
  "get_size s = length (m_names s)"

definition get_names :: "JointState \<Rightarrow> string list" where
  "get_names s = m_names s"

text \<open>
  Eigen's \<open>resize\<close> keeps a vector of the requested size and otherwise leaves the
  coefficients uninitialised; the model puts NaN there. Every call below is followed
  by \<open>setZero\<close>.
\<close>

definition resize :: "nat \<Rightarrow> VectorXd \<Rightarrow> VectorXd" where
  "resize n v = (if length v = n then v else replicate n NaN)"

definition setZero :: "VectorXd \<Rightarrow> VectorXd" where
  "setZero v = Zero_vec (length v)"

definition set_zero :: "JointState \<Rightarrow> JointState" where
  "set_zero s = s\<lparr>m_positions := setZero (m_positions s),
                  m_velocities := setZero (m_velocities s),
                  m_accelerations := setZero (m_accelerations s),
                  m_torques := setZero (m_torques s)\<rparr>"

definition JointState_initialize :: "JointState \<Rightarrow> JointState" where
  "JointState_initialize s0 =
     (let s = State_initialize s0;
          sz = length (m_names s)
      in set_zero (s\<lparr>m_positions := resize sz (m_positions s),
                      m_velocities := resize sz (m_velocities s),
                      m_accelerations := resize sz (m_accelerations s),
                      m_torques := resize sz (m_torques s)\<rparr>))"

definition set_names_count :: "nat \<Rightarrow> JointState \<Rightarrow> error + JointState" where
  "set_names_count nb_joints s =
     (if get_size s \<noteq> nb_joints then Inl IncompatibleSize
      else Inr (s\<lparr>m_names :=
             for_loop nb_joints (\<lambda>i ns. ns[i := ''joint'' @ to_string i])
               (take nb_joints (m_names s) @ replicate (nb_joints - length (m_names s)) [])\<rparr>))"

definition set_names :: "string list \<Rightarrow> JointState \<Rightarrow> error + JointState" where
  "set_names ns s =
     (if get_size s \<noteq> length ns then Inl IncompatibleSize else Inr (s\<lparr>m_names := ns\<rparr>))"

text \<open>The members before the constructor body runs: the base part, the names, empty vectors.\<close>

definition JointState_members :: "string \<Rightarrow> string list \<Rightarrow> JointState" where
  "JointState_members robot_name ns =
     \<lparr>m_type = JOINT_STATE, m_name = robot_name, m_empty = True, m_names = ns,
      m_positions = [], m_velocities = [], m_accelerations = [], m_torques = []\<rparr>"

definition JointState_default :: JointState where
  "JointState_default = JointState_initialize (JointState_members [] [])"

definition JointState_of_count :: "string \<Rightarrow> nat \<Rightarrow> error + JointState" where
  "JointState_of_count robot_name nb_joints =
     and_then (set_names_count nb_joints (JointState_members robot_name (replicate nb_joints [])))
       (\<lambda>s. Inr (JointState_initialize s))"

definition JointState_of_names :: "string \<Rightarrow> string list \<Rightarrow> JointState" where
  "JointState_of_names robot_name joint_names =
     JointState_initialize (JointState_members robot_name joint_names)"


definition Zero_of_names :: "string \<Rightarrow> string list \<Rightarrow> JointState" where
  "Zero_of_names robot_name joint_names = set_filled (JointState_of_names robot_name joint_names)"

text \<open>\<open>std::find\<close> followed by \<open>std::distance\<close>: the first position of the name.\<close>

fun find_first :: "string list \<Rightarrow> string \<Rightarrow> nat option" where
  "find_first [] joint_name = None"
| "find_first (n # ns) joint_name =
     (if n = joint_name then Some 0 else map_option Suc (find_first ns joint_name))"

definition get_joint_index :: "JointState \<Rightarrow> string \<Rightarrow> error + nat" where
  "get_joint_index s joint_name =
     (case find_first (m_names s) joint_name of
        None \<Rightarrow> Inl (JointNotFound (''The joint with name '' @ [CHR 0x27] @ joint_name
                   @ [CHR 0x27] @ '' could not be found in the joint state.''))
      | Some i \<Rightarrow> Inr i)"

definition get_positions :: "JointState \<Rightarrow> VectorXd" where
  "get_positions s = m_positions s"

definition get_velocities :: "JointState \<Rightarrow> VectorXd" where
  "get_velocities s = m_velocities s"

definition get_accelerations :: "JointState \<Rightarrow> VectorXd" where
  "get_accelerations s = m_accelerations s"

definition get_torques :: "JointState \<Rightarrow> VectorXd" where
  "get_torques s = m_torques s"

definition get_position_of_name :: "JointState \<Rightarrow> string \<Rightarrow> error + double" where
  "get_position_of_name s joint_name =
     and_then (get_joint_index s joint_name) (coeff_at (m_positions s))"

definition get_position :: "JointState \<Rightarrow> nat \<Rightarrow> error + double" where
  "get_position s joint_index =
     and_then (assert_index_in_range joint_index (get_size s))
       (\<lambda>_. coeff_at (m_positions s) joint_index)"

definition get_velocity :: "JointState \<Rightarrow> nat \<Rightarrow> error + double" where
  "get_velocity s joint_index =
     and_then (assert_index_in_range joint_index (get_size s))
       (\<lambda>_. coeff_at (m_velocities s) joint_index)"

definition get_acceleration :: "JointState \<Rightarrow> nat \<Rightarrow> error + double" where
  "get_acceleration s joint_index =
     and_then (assert_index_in_range joint_index (get_size s))
       (\<lambda>_. coeff_at (m_accelerations s) joint_index)"

definition get_torque :: "JointState \<Rightarrow> nat \<Rightarrow> error + double" where
  "get_torque s joint_index =
     and_then (assert_index_in_range joint_index (get_size s))
       (\<lambda>_. coeff_at (m_torques s) joint_index)"

text \<open>Writing one coefficient of a vector: outside the vector the write is undefined.\<close>

definition assign_at :: "VectorXd \<Rightarrow> nat \<Rightarrow> double \<Rightarrow> error + VectorXd" where
  "assign_at v i x = (if i < length v then Inr (v[i := x]) else Inl OutOfRangeAccess)"

definition set_position :: "double \<Rightarrow> nat \<Rightarrow> JointState \<Rightarrow> error + JointState" where
  "set_position position joint_index s =
     and_then (assert_index_in_range joint_index (get_size s))
       (\<lambda>_. let s1 = set_filled s
            in and_then (assign_at (m_positions s1) joint_index position)
                 (\<lambda>v. Inr (s1\<lparr>m_positions := v\<rparr>)))"

definition set_velocity :: "double \<Rightarrow> nat \<Rightarrow> JointState \<Rightarrow> error + JointState" where
  "set_velocity velocity joint_index s =
     and_then (assert_index_in_range joint_index (get_size s))
       (\<lambda>_. let s1 = set_filled s
            in and_then (assign_at (m_velocities s1) joint_index velocity)
                 (\<lambda>v. Inr (s1\<lparr>m_velocities := v\<rparr>)))"

definition set_acceleration :: "double \<Rightarrow> nat \<Rightarrow> JointState \<Rightarrow> error + JointState" where
  "set_acceleration acceleration joint_index s =
     and_then (assert_index_in_range joint_index (get_size s))
       (\<lambda>_. let s1 = set_filled s
            in and_then (assign_at (m_accelerations s1) joint_index acceleration)
                 (\<lambda>v. Inr (s1\<lparr>m_accelerations := v\<rparr>)))"

definition set_torque :: "double \<Rightarrow> nat \<Rightarrow> JointState \<Rightarrow> error + JointState" where
  "set_torque torque joint_index s =
     and_then (assert_index_in_range joint_index (get_size s))
       (\<lambda>_. let s1 = set_filled s
            in and_then (assign_at (m_torques s1) joint_index torque)
                 (\<lambda>v. Inr (s1\<lparr>m_torques := v\<rparr>)))"

text \<open>
  The helpers \<open>set_state_variable\<close>, \<open>get_state_variable\<close>,
  \<open>get_all_state_variables\<close> and \<open>set_all_state_variables\<close> of \<open>JointState\<close> are
  defined in \<open>JointState.hpp\<close>, which is not among the sources; the setters and
  getters of whole fields, which call them, are in \<open>JointState.cpp\<close>.
\<close>

text \<open>
  Modelled from the spec: \<open>set_state_variable(field, new_value)\<close> of
  \<open>JointState.hpp\<close>. Section 3: the four fields are co-sized to the names and "empty"
  becomes false the first time a field is set; section 7: IncompatibleSize when a
  vector does not have the expected field size. The field is given by the function
  that assigns it.
\<close>

definition set_state_variable_ref ::
  "(VectorXd \<Rightarrow> JointState \<Rightarrow> JointState) \<Rightarrow> VectorXd \<Rightarrow> JointState \<Rightarrow> error + JointState" where
  "set_state_variable_ref assign new_value s =
     (if length new_value \<noteq> get_size s then Inl IncompatibleSize
      else Inr (assign new_value (set_filled s)))"

definition set_positions :: "VectorXd \<Rightarrow> JointState \<Rightarrow> error + JointState" where
  "set_positions positions s =
     set_state_variable_ref (\<lambda>v t. t\<lparr>m_positions := v\<rparr>) positions s"

definition set_velocities :: "VectorXd \<Rightarrow> JointState \<Rightarrow> error + JointState" where
  "set_velocities velocities s =
     set_state_variable_ref (\<lambda>v t. t\<lparr>m_velocities := v\<rparr>) velocities s"

definition set_accelerations :: "VectorXd \<Rightarrow> JointState \<Rightarrow> error + JointState" where
  "set_accelerations accelerations s =
     set_state_variable_ref (\<lambda>v t. t\<lparr>m_accelerations := v\<rparr>) accelerations s"

definition set_torques :: "VectorXd \<Rightarrow> JointState \<Rightarrow> error + JointState" where
  "set_torques torques s =
     set_state_variable_ref (\<lambda>v t. t\<lparr>m_torques := v\<rparr>) torques s"

definition segment :: "nat \<Rightarrow> nat \<Rightarrow> VectorXd \<Rightarrow> VectorXd" where
  "segment i n v = take n (drop i v)"

text \<open>
  Modelled from the spec: \<open>get_all_state_variables\<close> of \<open>JointState.hpp\<close>. Section 3:
  four Nx1 fields (positions, velocities, accelerations, torques); section 4.3: the
  selector ALL stands for the four fields, here in that order. The fields are read
  through the getters of \<open>JointState.cpp\<close>, which do not look at the empty flag.
\<close>

definition get_all_state_variables :: "JointState \<Rightarrow> VectorXd" where
  "get_all_state_variables s =
     get_positions s @ get_velocities s @ get_accelerations s @ get_torques s"

text \<open>
  Modelled from the spec: \<open>set_all_state_variables\<close> of \<open>JointState.hpp\<close>. Section 7:
  IncompatibleSize when the vector does not have the size of the four fields; each
  field is then set from its segment, in the order of section 3.
\<close>

definition set_all_state_variables :: "VectorXd \<Rightarrow> JointState \<Rightarrow> error + JointState" where
  "set_all_state_variables new_values s =
     (let sz = get_size s in
      if length new_values \<noteq> 4 * sz then Inl IncompatibleSize
      else and_then (set_positions (segment 0 sz new_values) s) (\<lambda>s1.
           and_then (set_velocities (segment sz sz new_values) s1) (\<lambda>s2.
           and_then (set_accelerations (segment (2 * sz) sz new_values) s2) (\<lambda>s3.
           set_torques (segment (3 * sz) sz new_values) s3))))"

text \<open>
  Modelled from the spec: \<open>get_state_variable(state_variable_type)\<close> of
  \<open>JointState.hpp\<close>. Section 4.3: the selector (POSITIONS, VELOCITIES, ACCELERATIONS,
  TORQUES, ALL) chooses the field that an operation acts on.
\<close>

fun get_state_variable :: "JointStateVariable \<Rightarrow> JointState \<Rightarrow> VectorXd" where
  "get_state_variable POSITIONS s = get_positions s"
| "get_state_variable VELOCITIES s = get_velocities s"
| "get_state_variable ACCELERATIONS s = get_accelerations s"
| "get_state_variable TORQUES s = get_torques s"
| "get_state_variable ALL_VARIABLES s = get_all_state_variables s"

text \<open>
  Modelled from the spec: \<open>set_state_variable(new_value, state_variable_type)\<close> of
  \<open>JointState.hpp\<close>. Section 4.3: the selector chooses the field that is set, through
  the setters of \<open>JointState.cpp\<close>.
\<close>

fun set_state_variable :: "VectorXd \<Rightarrow> JointStateVariable \<Rightarrow> JointState \<Rightarrow> error + JointState" where
  "set_state_variable new_value POSITIONS s = set_positions new_value s"
| "set_state_variable new_value VELOCITIES s = set_velocities new_value s"
| "set_state_variable new_value ACCELERATIONS s = set_accelerations new_value s"
| "set_state_variable new_value TORQUES s = set_torques new_value s"
| "set_state_variable new_value ALL_VARIABLES s = set_all_state_variables new_value s"

text \<open>The copy constructor copies every member that the model keeps.\<close>

definition copy :: "JointState \<Rightarrow> JointState" where
  "copy s = s"

subsection \<open>Compatibility\<close>

text \<open>
  \<open>JointState::is_compatible\<close> first asks \<open>State::is_compatible\<close>, whose body is not
  among the sources: the base check is the parameter \<open>base\<close>. The operators pass a
  \<open>JointState\<close>, so the casts of the argument succeed.
\<close>

definition JointState_is_compatible ::
  "(JointState \<Rightarrow> JointState \<Rightarrow> bool) \<Rightarrow> JointState \<Rightarrow> JointState \<Rightarrow> bool" where
  "JointState_is_compatible base this state =
     (let compatible = base this state;
          compatible = (compatible \<and> length (m_names this) = length (m_names state))
      in if compatible
         then for_loop (length (m_names this))
                (\<lambda>i c. c \<and> m_names this ! i = m_names state ! i) compatible
         else compatible)"

subsection \<open>Clamping and distance\<close>

text \<open>
  The loop of \<open>clamp_state_variable\<close> visits the coefficients in turn; \<open>clamp_step\<close>
  is its body. The call \<open>abs\<close> of the source is the absolute value of a double. The
  product of the noise ratio and the maximum, the quotient of the maximum and the
  absolute value, and the product that \<open>*=\<close> stores are rounded. In the overload with
  two scalars the arrays are the scalars times one, which is exact.
\<close>

definition clamp_step ::
  "(real \<Rightarrow> double) \<Rightarrow> ArrayXd \<Rightarrow> ArrayXd \<Rightarrow> nat \<Rightarrow> VectorXd \<Rightarrow> VectorXd" where
  "clamp_step rnd max_absolute_value_array noise_ratio_array i state_variable =
     (if ne (noise_ratio_array ! i) (Fin 0)
         \<and> \<bar>state_variable ! i\<bar>
             < fl rnd (noise_ratio_array ! i * max_absolute_value_array ! i)
      then state_variable[i := Fin 0]
      else if \<bar>state_variable ! i\<bar> > max_absolute_value_array ! i
      then state_variable[i := fl rnd (state_variable ! i
                 * fl rnd (max_absolute_value_array ! i / \<bar>state_variable ! i\<bar>))]
      else state_variable)"

definition clamp_state_variable_array ::
  "(real \<Rightarrow> double) \<Rightarrow> ArrayXd \<Rightarrow> JointStateVariable \<Rightarrow> ArrayXd \<Rightarrow> JointState
     \<Rightarrow> error + JointState" where
  "clamp_state_variable_array rnd max_absolute_value_array state_variable_type
       noise_ratio_array s =
     (let state_variable = get_state_variable state_variable_type s;
          expected_size = length state_variable
      in if length max_absolute_value_array \<noteq> expected_size then Inl IncompatibleSize
         else if length noise_ratio_array \<noteq> expected_size then Inl IncompatibleSize
         else set_state_variable
                (for_loop expected_size
                   (clamp_step rnd max_absolute_value_array noise_ratio_array) state_variable)
                state_variable_type s)"

definition clamp_state_variable ::
  "(real \<Rightarrow> double) \<Rightarrow> double \<Rightarrow> JointStateVariable \<Rightarrow> double \<Rightarrow> JointState
     \<Rightarrow> error + JointState" where
  "clamp_state_variable rnd max_absolute_value state_variable_type noise_ratio s =
     (let state_variable = get_state_variable state_variable_type s;
          expected_size = length state_variable
      in clamp_state_variable_array rnd (scale max_absolute_value (Ones expected_size))
           state_variable_type (scale noise_ratio (Ones expected_size)) s)"

fun double_sqrt :: "double \<Rightarrow> double" where
  "double_sqrt (Fin x) = (if x < 0 then NaN else Fin (sqrt x))"
| "double_sqrt PInf = PInf"
| "double_sqrt NInf = NaN"
| "double_sqrt NaN = NaN"

definition norm_vec :: "VectorXd \<Rightarrow> double" where
  "norm_vec v = double_sqrt (dot v v)"

definition dist ::
  "(JointState \<Rightarrow> JointState \<Rightarrow> bool) \<Rightarrow> JointState \<Rightarrow> JointState \<Rightarrow> JointStateVariable
     \<Rightarrow> error + double" where
  "dist base this state state_variable_type =
     (if is_empty this then Inl EmptyState
      else if is_empty state then Inl EmptyState
      else if \<not> JointState_is_compatible base this state then Inl IncompatibleStates
      else
        (let r0 = Fin 0;
             r1 = (if state_variable_type = POSITIONS \<or> state_variable_type = ALL_VARIABLES
                   then r0 + norm_vec (vec_minus (get_positions this) (get_positions state))
                   else r0);
             r2 = (if state_variable_type = VELOCITIES \<or> state_variable_type = ALL_VARIABLES
                   then r1 + norm_vec (vec_minus (get_velocities this) (get_velocities state))
                   else r1);
             r3 = (if state_variable_type = ACCELERATIONS \<or> state_variable_type = ALL_VARIABLES
                   then r2 + norm_vec (vec_minus (get_accelerations this) (get_accelerations state))
                   else r2);
             r4 = (if state_variable_type = TORQUES \<or> state_variable_type = ALL_VARIABLES
                   then r3 + norm_vec (vec_minus (get_torques this) (get_torques state))
                   else r3)
         in Inr r4))"

subsection \<open>Operators\<close>

text \<open>
  An operator \<open>op=\<close> of the source changes \<open>*this\<close> and is the function \<open>op_assign\<close>
  from the state before to the state after; every exception below is thrown before
  \<open>*this\<close> is changed.
\<close>

definition multiply_state_variable_array ::
  "ArrayXd \<Rightarrow> JointStateVariable \<Rightarrow> JointState \<Rightarrow> error + JointState" where
  "multiply_state_variable_array lambda state_variable_type s =
     (let state_variable = get_state_variable state_variable_type s;
          expected_size = length state_variable
      in if length lambda \<noteq> expected_size then Inl IncompatibleSize
         else set_state_variable (cwise_product lambda state_variable) state_variable_type s)"

definition multiply_state_variable_matrix ::
  "MatrixXd \<Rightarrow> JointStateVariable \<Rightarrow> JointState \<Rightarrow> error + JointState" where
  "multiply_state_variable_matrix lambda state_variable_type s =
     (let state_variable = get_state_variable state_variable_type s;
          expected_size = length state_variable
      in if rows lambda \<noteq> expected_size \<or> cols lambda \<noteq> expected_size
         then Inl IncompatibleSize
         else set_state_variable (mat_vec lambda (get_state_variable state_variable_type s))
                state_variable_type s)"

definition times_assign_scalar :: "double \<Rightarrow> JointState \<Rightarrow> error + JointState" where
  "times_assign_scalar lambda s =
     (if is_empty s then Inl EmptyState
      else set_all_state_variables (scale lambda (get_all_state_variables s)) s)"

definition times_scalar :: "JointState \<Rightarrow> double \<Rightarrow> error + JointState" where
  "times_scalar s lambda = times_assign_scalar lambda (copy s)"

definition scalar_times :: "double \<Rightarrow> JointState \<Rightarrow> error + JointState" where
  "scalar_times lambda state =
     (if is_empty state then Inl EmptyState else times_assign_scalar lambda (copy state))"

definition times_assign_matrix :: "MatrixXd \<Rightarrow> JointState \<Rightarrow> error + JointState" where
  "times_assign_matrix lambda s = multiply_state_variable_matrix lambda ALL_VARIABLES s"

definition times_matrix :: "JointState \<Rightarrow> MatrixXd \<Rightarrow> error + JointState" where
  "times_matrix s lambda = times_assign_matrix lambda (copy s)"

definition matrix_times :: "MatrixXd \<Rightarrow> JointState \<Rightarrow> error + JointState" where
  "matrix_times lambda state = times_assign_matrix lambda (copy state)"

definition times_assign_array :: "ArrayXd \<Rightarrow> JointState \<Rightarrow> error + JointState" where
  "times_assign_array lambda s = multiply_state_variable_array lambda ALL_VARIABLES s"

definition times_array :: "JointState \<Rightarrow> ArrayXd \<Rightarrow> error + JointState" where
  "times_array s lambda = times_assign_array lambda (copy s)"

definition array_times :: "ArrayXd \<Rightarrow> JointState \<Rightarrow> error + JointState" where
  "array_times lambda state = times_assign_array lambda (copy state)"

definition divide_assign_scalar :: "double \<Rightarrow> JointState \<Rightarrow> error + JointState" where
  "divide_assign_scalar lambda s = times_assign_scalar (Fin 1 / lambda) s"

definition divide_scalar :: "JointState \<Rightarrow> double \<Rightarrow> error + JointState" where
  "divide_scalar s lambda = divide_assign_scalar lambda (copy s)"

definition plus_assign ::
  "(JointState \<Rightarrow> JointState \<Rightarrow> bool) \<Rightarrow> JointState \<Rightarrow> JointState \<Rightarrow> error + JointState" where
  "plus_assign base state s =
     (if is_empty s then Inl EmptyState
      else if is_empty state then Inl EmptyState
      else if \<not> JointState_is_compatible base s state then Inl IncompatibleStates
      else set_all_state_variables
             (vec_plus (get_all_state_variables s) (get_all_state_variables state)) s)"

definition JointState_plus ::
  "(JointState \<Rightarrow> JointState \<Rightarrow> bool) \<Rightarrow> JointState \<Rightarrow> JointState \<Rightarrow> error + JointState" where
  "JointState_plus base s state = plus_assign base state (copy s)"

definition minus_assign ::
  "(JointState \<Rightarrow> JointState \<Rightarrow> bool) \<Rightarrow> JointState \<Rightarrow> JointState \<Rightarrow> error + JointState" where
  "minus_assign base state s =
     (if is_empty s then Inl EmptyState
      else if is_empty state then Inl EmptyState
      else if \<not> JointState_is_compatible base s state then Inl IncompatibleStates
      else set_all_state_variables
             (vec_minus (get_all_state_variables s) (get_all_state_variables state)) s)"

definition JointState_minus ::
  "(JointState \<Rightarrow> JointState \<Rightarrow> bool) \<Rightarrow> JointState \<Rightarrow> JointState \<Rightarrow> error + JointState" where
  "JointState_minus base s state = minus_assign base state (copy s)"

section \<open>JointState (robot/JointState.cpp)\<close>

text \<open>
  The older class of the same name, with the same members. Its clamp subtracts the
  noise ratio before it clamps (the difference and the sum are rounded); its division
  is the multiplication by the inverse.
\<close>

definition robot_clamp_step ::
  "(real \<Rightarrow> double) \<Rightarrow> ArrayXd \<Rightarrow> ArrayXd \<Rightarrow> nat \<Rightarrow> VectorXd \<Rightarrow> VectorXd" where
  "robot_clamp_step rnd max_absolute_value_array noise_ratio_array i state_variable =
     (if state_variable ! i > Fin 0
      then (let v1 = fl rnd (state_variable ! i - noise_ratio_array ! i);
                v2 = (if v1 < Fin 0 then Fin 0 else v1);
                v3 = (if v2 > max_absolute_value_array ! i
                      then max_absolute_value_array ! i else v2)
            in state_variable[i := v3])
      else (let v1 = fl rnd (state_variable ! i + noise_ratio_array ! i);
                v2 = (if v1 > Fin 0 then Fin 0 else v1);
                v3 = (if v2 < - (max_absolute_value_array ! i)
                      then - (max_absolute_value_array ! i) else v2)
            in state_variable[i := v3]))"

definition robot_clamp_state_variable_array ::
  "(real \<Rightarrow> double) \<Rightarrow> ArrayXd \<Rightarrow> JointStateVariable \<Rightarrow> ArrayXd \<Rightarrow> JointState
     \<Rightarrow> error + JointState" where
  "robot_clamp_state_variable_array rnd max_absolute_value_array state_variable_type
       noise_ratio_array s =
     (let state_variable = get_state_variable state_variable_type s;
          expected_size = length state_variable
      in if length max_absolute_value_array \<noteq> expected_size then Inl IncompatibleSize
         else if length noise_ratio_array \<noteq> expected_size then Inl IncompatibleSize
         else set_state_variable
                (for_loop expected_size
                   (robot_clamp_step rnd max_absolute_value_array noise_ratio_array)
                   state_variable)
                state_variable_type s)"

definition robot_clamp_state_variable ::
  "(real \<Rightarrow> double) \<Rightarrow> double \<Rightarrow> JointStateVariable \<Rightarrow> double \<Rightarrow> JointState
     \<Rightarrow> error + JointState" where
  "robot_clamp_state_variable rnd max_absolute_value state_variable_type noise_ratio s =
     (let state_variable = get_state_variable state_variable_type s;
          expected_size = length state_variable
      in robot_clamp_state_variable_array rnd (scale max_absolute_value (Ones expected_size))
           state_variable_type (scale noise_ratio (Ones expected_size)) s)"

definition robot_times_assign_scalar :: "double \<Rightarrow> JointState \<Rightarrow> error + JointState" where
  "robot_times_assign_scalar lambda s =
     (if is_empty s then Inl EmptyState
      else set_all_state_variables (scale lambda (get_all_state_variables s)) s)"

text \<open>
  Its \<open>+=\<close> and \<open>-=\<close> start with \<open>is_compatible\<close> of that class, whose body is not
  among the sources: the check is the parameter \<open>compatible\<close>.
\<close>

definition robot_plus_assign ::
  "(JointState \<Rightarrow> JointState \<Rightarrow> bool) \<Rightarrow> JointState \<Rightarrow> JointState \<Rightarrow> error + JointState" where
  "robot_plus_assign compatible state s =
     (if \<not> compatible s state then Inl IncompatibleStates
      else set_all_state_variables
             (vec_plus (get_all_state_variables s) (get_all_state_variables state)) s)"

definition robot_minus_assign ::
  "(JointState \<Rightarrow> JointState \<Rightarrow> bool) \<Rightarrow> JointState \<Rightarrow> JointState \<Rightarrow> error + JointState" where
  "robot_minus_assign compatible state s =
     (if \<not> compatible s state then Inl IncompatibleStates
      else set_all_state_variables
             (vec_minus (get_all_state_variables s) (get_all_state_variables state)) s)"

definition robot_divide_assign_scalar :: "double \<Rightarrow> JointState \<Rightarrow> error + JointState" where
  "robot_divide_assign_scalar lambda s = robot_times_assign_scalar (Fin 1 / lambda) s"

definition robot_divide_scalar :: "JointState \<Rightarrow> double \<Rightarrow> error + JointState" where
  "robot_divide_scalar s lambda = robot_divide_assign_scalar lambda (copy s)"

section \<open>Cartesian states\<close>

record CartesianState = SpatialState +
  m_position :: Vector3d
  m_orientation :: Quaterniond
  m_linear_velocity :: Vector3d
  m_angular_velocity :: Vector3d
  m_linear_acceleration :: Vector3d
  m_angular_acceleration :: Vector3d
  m_force :: Vector3d
  m_torque :: Vector3d

type_synonym CartesianPose = CartesianState

type_synonym CartesianTwist = CartesianState

type_synonym CartesianAcceleration = CartesianState

definition Vector3d_Zero :: Vector3d where
  "Vector3d_Zero = \<lparr>vx = Fin 0, vy = Fin 0, vz = Fin 0\<rparr>"

definition Quaterniond_Identity :: Quaterniond where
  "Quaterniond_Identity = \<lparr>qw = Fin 1, qx = Fin 0, qy = Fin 0, qz = Fin 0\<rparr>"

definition vec3_divide :: "Vector3d \<Rightarrow> double \<Rightarrow> Vector3d" where
  "vec3_divide v l = \<lparr>vx = vx v / l, vy = vy v / l, vz = vz v / l\<rparr>"

definition vec3_scale :: "double \<Rightarrow> Vector3d \<Rightarrow> Vector3d" where
  "vec3_scale l v = \<lparr>vx = l * vx v, vy = l * vy v, vz = l * vz v\<rparr>"

definition quat_vec :: "Quaterniond \<Rightarrow> Vector3d" where
  "quat_vec q = \<lparr>vx = qx q, vy = qy q, vz = qz q\<rparr>"

definition quat_dot :: "Quaterniond \<Rightarrow> Quaterniond \<Rightarrow> double" where
  "quat_dot p q = qx p * qx q + qy p * qy q + qz p * qz q + qw p * qw q"

definition quat_negated_coeffs :: "Quaterniond \<Rightarrow> Quaterniond" where
  "quat_negated_coeffs q = \<lparr>qw = - qw q, qx = - qx q, qy = - qy q, qz = - qz q\<rparr>"

text \<open>
  The 3x3 block at row and column \<open>k\<close> of a matrix of the fixed size 6x6 (its six
  rows of six coefficients), times a 3-vector.
\<close>

definition block3_times :: "double list list \<Rightarrow> nat \<Rightarrow> Vector3d \<Rightarrow> Vector3d" where
  "block3_times m k v =
     (let r = (\<lambda>i. dot (take 3 (drop k (m ! (k + i)))) [vx v, vy v, vz v])
      in \<lparr>vx = r 0, vy = r 1, vz = r 2\<rparr>)"

text \<open>
  The class \<open>CartesianState\<close> (its constructor, getters and setters) and the
  constructor of \<open>CartesianTwist\<close> are in files that are not among the sources.
\<close>

text \<open>
  Modelled from the spec: the constructor \<open>CartesianState(name, reference)\<close>. Section
  3: the identity value is zero vectors and the identity quaternion; section 4.1:
  empty is the default after construction.
\<close>

definition CartesianState_ctor :: "string \<Rightarrow> string \<Rightarrow> CartesianState" where
  "CartesianState_ctor n reference =
     \<lparr>m_type = CARTESIAN_STATE, m_name = n, m_empty = True, m_reference_frame = reference,
      m_position = Vector3d_Zero, m_orientation = Quaterniond_Identity,
      m_linear_velocity = Vector3d_Zero, m_angular_velocity = Vector3d_Zero,
      m_linear_acceleration = Vector3d_Zero, m_angular_acceleration = Vector3d_Zero,
      m_force = Vector3d_Zero, m_torque = Vector3d_Zero\<rparr>"

text \<open>
  Modelled from the spec: \<open>CartesianState::Identity\<close>. Section 3: the identity value
  is zero vectors and the identity quaternion; section 8 has \<open>Identity\<close> as the
  result of an operation, so it is not empty.
\<close>

definition CartesianState_Identity :: "string \<Rightarrow> string \<Rightarrow> CartesianState" where
  "CartesianState_Identity n reference = set_filled (CartesianState_ctor n reference)"

text \<open>
  Modelled from the spec: the constructor \<open>CartesianTwist(name, reference)\<close>. Section
  2: a twist is a CartesianState of its own kind; the constructors of \<open>CartesianPose\<close>
  and \<open>CartesianAcceleration\<close> in the sources set the type tag after the base
  constructor, and so does this one.
\<close>

definition CartesianTwist_ctor :: "string \<Rightarrow> string \<Rightarrow> CartesianTwist" where
  "CartesianTwist_ctor n reference = set_type CARTESIAN_TWIST (CartesianState_ctor n reference)"

text \<open>
  Modelled from the spec: \<open>CartesianState::get_position\<close>. Section 3: the position is
  one of the 3-vectors of the state.
\<close>

definition get_position3 :: "CartesianState \<Rightarrow> Vector3d" where
  "get_position3 s = m_position s"

text \<open>
  Modelled from the spec: \<open>CartesianState::get_orientation\<close>. Section 3: the
  orientation is the quaternion of the state.
\<close>

definition get_orientation :: "CartesianState \<Rightarrow> Quaterniond" where
  "get_orientation s = m_orientation s"

text \<open>
  Modelled from the spec: \<open>CartesianState::get_linear_velocity\<close>. Section 3: the
  linear velocity is one of the 3-vectors of the state.
\<close>

definition get_linear_velocity :: "CartesianState \<Rightarrow> Vector3d" where
  "get_linear_velocity s = m_linear_velocity s"

text \<open>
  Modelled from the spec: \<open>CartesianState::get_angular_velocity\<close>. Section 3: the
  angular velocity is one of the angular 3-vectors of the state.
\<close>

definition get_angular_velocity :: "CartesianState \<Rightarrow> Vector3d" where
  "get_angular_velocity s = m_angular_velocity s"

text \<open>
  Modelled from the spec: \<open>CartesianState::get_linear_acceleration\<close>. Section 3: the
  linear acceleration is one of the 3-vectors of the state.
\<close>

definition get_linear_acceleration :: "CartesianState \<Rightarrow> Vector3d" where
  "get_linear_acceleration s = m_linear_acceleration s"

text \<open>
  Modelled from the spec: \<open>CartesianState::get_angular_acceleration\<close>. Section 3: the
  angular acceleration is one of the angular 3-vectors of the state.
\<close>

definition get_angular_acceleration :: "CartesianState \<Rightarrow> Vector3d" where
  "get_angular_acceleration s = m_angular_acceleration s"

text \<open>
  Modelled from the spec: \<open>CartesianState::set_linear_velocity\<close>. Section 4.1: the
  state becomes non-empty on an explicit field write.
\<close>

definition set_linear_velocity :: "Vector3d \<Rightarrow> CartesianState \<Rightarrow> CartesianState" where
  "set_linear_velocity v s = (set_filled s)\<lparr>m_linear_velocity := v\<rparr>"

text \<open>
  Modelled from the spec: \<open>CartesianState::set_angular_velocity\<close>. Section 4.1: the
  state becomes non-empty on an explicit field write.
\<close>

definition set_angular_velocity :: "Vector3d \<Rightarrow> CartesianState \<Rightarrow> CartesianState" where
  "set_angular_velocity v s = (set_filled s)\<lparr>m_angular_velocity := v\<rparr>"

text \<open>
  Modelled from the spec: \<open>CartesianState::set_linear_acceleration\<close>. Section 4.1: the
  state becomes non-empty on an explicit field write.
\<close>

definition set_linear_acceleration :: "Vector3d \<Rightarrow> CartesianState \<Rightarrow> CartesianState" where
  "set_linear_acceleration v s = (set_filled s)\<lparr>m_linear_acceleration := v\<rparr>"

text \<open>
  Modelled from the spec: \<open>CartesianState::set_angular_acceleration\<close>. Section 4.1:
  the state becomes non-empty on an explicit field write.
\<close>

definition set_angular_acceleration :: "Vector3d \<Rightarrow> CartesianState \<Rightarrow> CartesianState" where
  "set_angular_acceleration v s = (set_filled s)\<lparr>m_angular_acceleration := v\<rparr>"

subsection \<open>CartesianPose.cpp\<close>

text \<open>
  \<open>CartesianPose::operator/(const std::chrono::nanoseconds&)\<close>. The duration is its
  count of nanoseconds. \<open>math_tools::log\<close> is not among the sources: the quaternion
  logarithm is the parameter \<open>qlog\<close>.
\<close>

definition CartesianPose_divide_duration ::
  "(Quaterniond \<Rightarrow> Quaterniond) \<Rightarrow> CartesianPose \<Rightarrow> int \<Rightarrow> error + CartesianTwist" where
  "CartesianPose_divide_duration qlog this dt =
     (if is_empty this then Inl EmptyState
      else
        (let twist0 = CartesianTwist_ctor (get_name this) (get_reference_frame this);
             period0 = Fin (of_int dt);
             period = period0 / Fin 1000000000;
             twist1 = set_linear_velocity (vec3_divide (get_position3 this) period) twist0;
             log_q0 = qlog (get_orientation this);
             log_q = (if quat_dot (get_orientation this) log_q0 < Fin 0
                      then quat_negated_coeffs log_q0 else log_q0)
         in Inr (set_angular_velocity
                   (vec3_divide (vec3_scale (Fin 2) (quat_vec log_q)) period) twist1)))"

subsection \<open>CartesianAcceleration.cpp\<close>

definition CartesianAcceleration_times_assign_matrix ::
  "double list list \<Rightarrow> CartesianAcceleration \<Rightarrow> error + CartesianAcceleration" where
  "CartesianAcceleration_times_assign_matrix lambda s =
     (if is_empty s then Inl EmptyState
      else
        (let s1 = set_linear_acceleration
                    (block3_times lambda 0 (get_linear_acceleration s)) s
         in Inr (set_angular_acceleration
                   (block3_times lambda 3 (get_angular_acceleration s1)) s1)))"

definition CartesianAcceleration_times_duration ::
  "CartesianAcceleration \<Rightarrow> int \<Rightarrow> error + CartesianTwist" where
  "CartesianAcceleration_times_duration this dt =
     (if is_empty this then Inl EmptyState
      else
        (let twist0 = CartesianTwist_ctor (get_name this) (get_reference_frame this);
             period0 = Fin (of_int dt);
             period = period0 / Fin 1000000000;
             twist1 = set_linear_velocity
                        (vec3_scale period (get_linear_acceleration this)) twist0
         in Inr (set_angular_velocity
                   (vec3_scale period (get_angular_acceleration this)) twist1)))"

section \<open>Shape and Ellipsoid\<close>

record Shape = State +
  m_center_state :: CartesianPose

definition Shape_ctor :: "string \<Rightarrow> string \<Rightarrow> Shape" where
  "Shape_ctor n reference_frame =
     set_type GEOMETRY_SHAPE
       (State.extend (State_of_name n)
          (Shape.fields (set_type CARTESIAN_POSE (CartesianState_Identity n reference_frame))))"

text \<open>
  Modelled from the spec: \<open>Shape::get_center_position\<close> is defined in \<open>Shape.hpp\<close>,
  which is not among the sources. Section 6: the geometry consumes a CartesianPose as
  its center; the center position is the position of that pose.
\<close>

definition get_center_position :: "'a Shape_scheme \<Rightarrow> Vector3d" where
  "get_center_position s = get_position3 (m_center_state s)"

record Ellipsoid = Shape +
  m_axis_lengths :: "double list"
  m_rotation_angle :: double

definition get_axis_lengths :: "Ellipsoid \<Rightarrow> double list" where
  "get_axis_lengths e = m_axis_lengths e"

definition get_axis_length :: "Ellipsoid \<Rightarrow> nat \<Rightarrow> error + double" where
  "get_axis_length e i = coeff_at (m_axis_lengths e) i"

definition set_axis_lengths :: "double list \<Rightarrow> Ellipsoid \<Rightarrow> Ellipsoid" where
  "set_axis_lengths axis_lengths e = set_empty False (e\<lparr>m_axis_lengths := axis_lengths\<rparr>)"

definition set_axis_length :: "nat \<Rightarrow> double \<Rightarrow> Ellipsoid \<Rightarrow> error + Ellipsoid" where
  "set_axis_length i axis_length e =
     and_then (assign_at (m_axis_lengths e) i axis_length)
       (\<lambda>v. Inr (set_empty False (e\<lparr>m_axis_lengths := v\<rparr>)))"

definition get_rotation_angle :: "Ellipsoid \<Rightarrow> double" where
  "get_rotation_angle e = m_rotation_angle e"

definition set_rotation_angle :: "double \<Rightarrow> Ellipsoid \<Rightarrow> Ellipsoid" where
  "set_rotation_angle rotation_angle e =
     set_empty False (e\<lparr>m_rotation_angle := rotation_angle\<rparr>)"

definition to_std_vector :: "Ellipsoid \<Rightarrow> error + double list" where
  "to_std_vector e =
     (if is_empty e then Inl EmptyState
      else and_then (get_axis_length e 0) (\<lambda>a0.
           and_then (get_axis_length e 1) (\<lambda>a1.
           Inr [vx (get_center_position e), vy (get_center_position e),
                vz (get_center_position e), get_rotation_angle e, a0, a1])))"

text \<open>
  The data invariant of section 3 of the spec: the four fields of a joint state are
  co-sized to its names. Every constructor establishes it and every setter keeps it.
\<close>

definition co_sized :: "JointState \<Rightarrow> bool" where
  "co_sized s =
     (length (m_positions s) = length (m_names s)
      \<and> length (m_velocities s) = length (m_names s)
      \<and> length (m_accelerations s) = length (m_names s)
      \<and> length (m_torques s) = length (m_names s))"

text \<open>A call throws \<open>JointNotFoundException\<close>, with some message.\<close>

fun is_JointNotFound :: "error + 'a \<Rightarrow> bool" where
  "is_JointNotFound (Inl (JointNotFound msg)) = True"
| "is_JointNotFound r = False"

section \<open>Sample values\<close>

text \<open>
  Values for the examples below: the robot with the single joint j at a given
  position and rest otherwise, the 4x4 identity matrix, and an ellipsoid, still
  empty, with two unit axis lengths around the identity pose.
\<close>

definition one_joint :: "double \<Rightarrow> JointState" where
  "one_joint x = \<lparr>m_type = JOINT_STATE, m_name = ''robot'', m_empty = False,
      m_names = [''j''], m_positions = [x], m_velocities = [Fin 0],
      m_accelerations = [Fin 0], m_torques = [Fin 0]\<rparr>"

definition Identity4 :: MatrixXd where
  "Identity4 = \<lparr>rows = 4, cols = 4,
      coeffs = [[Fin 1, Fin 0, Fin 0, Fin 0], [Fin 0, Fin 1, Fin 0, Fin 0],
                [Fin 0, Fin 0, Fin 1, Fin 0], [Fin 0, Fin 0, Fin 0, Fin 1]]\<rparr>"

text \<open>
  The rounding of binary64 (to nearest, ties to even) on the results that occur when
  the position 3 is clamped to the maximum 8106479329266893 / 2^53, the double nearest
  to 0.9, with the noise ratio 1: the quotient of the maximum by 3 and the product of
  3 and the rounded quotient are not doubles and are rounded, the first down by a
  third of a unit in the last place, the second from the midpoint of two doubles to
  the even one below the maximum; every other result of that computation is a double.
\<close>

definition binary64_near_nine_tenths :: "real \<Rightarrow> double" where
  "binary64_near_nine_tenths r =
     (if r = 8106479329266893 / 9007199254740992 / 3
      then Fin (5404319552844595 / 18014398509481984)
      else if r = 3 * (5404319552844595 / 18014398509481984)
      then Fin (8106479329266892 / 9007199254740992)
      else Fin r)"

definition sample_ellipsoid :: Ellipsoid where
  "sample_ellipsoid = \<lparr>m_type = GEOMETRY_ELLIPSOID, m_name = ''e'', m_empty = True,
      m_center_state = set_type CARTESIAN_POSE (CartesianState_Identity ''e'' ''world''),
      m_axis_lengths = [Fin 1, Fin 1], m_rotation_angle = Fin 0\<rparr>"

section \<open>The clamp of one coefficient\<close>

text \<open>
  What one round of the loop of \<open>clamp_state_variable\<close> does to the coefficient it
  visits, for the two classes, and a joint state with a function applied to every
  coefficient of the selected fields. These are used to state and prove the
  properties of the loops.
\<close>

definition clamp_value :: "(real \<Rightarrow> double) \<Rightarrow> double \<Rightarrow> double \<Rightarrow> double \<Rightarrow> double" where
  "clamp_value rnd mx nr x =
     (if ne nr (Fin 0) \<and> \<bar>x\<bar> < fl rnd (nr * mx) then Fin 0
      else if \<bar>x\<bar> > mx then fl rnd (x * fl rnd (mx / \<bar>x\<bar>))
      else x)"

definition robot_clamp_value ::
  "(real \<Rightarrow> double) \<Rightarrow> double \<Rightarrow> double \<Rightarrow> double \<Rightarrow> double" where
  "robot_clamp_value rnd mx nr x =
     (if x > Fin 0
      then (let v1 = fl rnd (x - nr);
                v2 = (if v1 < Fin 0 then Fin 0 else v1)
            in if v2 > mx then mx else v2)
      else (let v1 = fl rnd (x + nr);
                v2 = (if v1 > Fin 0 then Fin 0 else v1)
            in if v2 < - mx then - mx else v2))"

text \<open>A double that the rounding leaves unchanged, as it does every stored value.\<close>

fun exact :: "(real \<Rightarrow> double) \<Rightarrow> double \<Rightarrow> bool" where
  "exact rnd (Fin x) = (rnd x = Fin x)"
| "exact rnd PInf = True"
| "exact rnd NInf = True"
| "exact rnd NaN = True"

fun map_variable :: "(double \<Rightarrow> double) \<Rightarrow> JointStateVariable \<Rightarrow> JointState \<Rightarrow> JointState" where
  "map_variable f POSITIONS s = (set_filled s)\<lparr>m_positions := map f (m_positions s)\<rparr>"
| "map_variable f VELOCITIES s = (set_filled s)\<lparr>m_velocities := map f (m_velocities s)\<rparr>"
| "map_variable f ACCELERATIONS s =
     (set_filled s)\<lparr>m_accelerations := map f (m_accelerations s)\<rparr>"
| "map_variable f TORQUES s = (set_filled s)\<lparr>m_torques := map f (m_torques s)\<rparr>"
| "map_variable f ALL_VARIABLES s =
     (set_filled s)\<lparr>m_positions := map f (m_positions s),
                     m_velocities := map f (m_velocities s),
                     m_accelerations := map f (m_accelerations s),
                     m_torques := map f (m_torques s)\<rparr>"

section \<open>Arithmetic of finite doubles and loops\<close>

lemma Fin_plus [simp]: "Fin x + Fin y = Fin (x + y)"
  by (simp add: plus_double_def)

lemma Fin_minus [simp]: "Fin x - Fin y = Fin (x - y)"
  by (simp add: minus_double_def)

lemma Fin_times [simp]: "Fin x * Fin y = Fin (x * y)"
  by (simp add: times_double_def)

lemma Fin_divide [simp]: "y \<noteq> 0 \<Longrightarrow> Fin x / Fin y = Fin (x / y)"
  by (simp add: divide_double_def)

lemma Fin_uminus [simp]: "- Fin x = Fin (- x)"
  by (simp add: uminus_double_def)

lemma Fin_abs [simp]: "\<bar>Fin x\<bar> = Fin \<bar>x\<bar>"
  by (simp add: abs_double_def)

lemma Fin_less [simp]: "(Fin x < Fin y) = (x < y)"
  by (simp add: less_double_def)

lemma Fin_less_eq [simp]: "(Fin x \<le> Fin y) = (x \<le> y)"
  by (simp add: less_eq_double_def)

lemma ne_Fin [simp]: "ne (Fin x) (Fin y) = (x \<noteq> y)"
  by (simp add: ne_def)

lemma for_loop_0 [simp]: "for_loop 0 body s = s"
  by (simp add: for_loop_def)

lemma for_loop_Suc: "for_loop (Suc n) body s = body n (for_loop n body s)"
  by (simp add: for_loop_def)

lemma for_loop_conj: "for_loop n (\<lambda>i c. c \<and> P i) c0 = (c0 \<and> (\<forall>i<n. P i))"
  by (induction n) (auto simp: for_loop_Suc less_Suc_eq)

text \<open>A loop that rewrites coefficient i in round i.\<close>

lemma for_loop_update_length:
  "(\<And>i v. length (body i v) = length v) \<Longrightarrow> length (for_loop n body v) = length v"
  by (induction n) (simp_all add: for_loop_Suc)

lemma for_loop_update_nth:
  assumes "n \<le> length v"
  shows "length (for_loop n (\<lambda>i w. w[i := f i (w ! i)]) v) = length v \<and>
         (\<forall>j<length v. for_loop n (\<lambda>i w. w[i := f i (w ! i)]) v ! j
             = (if j < n then f j (v ! j) else v ! j))"
  using assms
proof (induction n)
  case 0
  then show ?case by simp
next
  case (Suc n)
  then have IH: "length (for_loop n (\<lambda>i w. w[i := f i (w ! i)]) v) = length v"
    "\<forall>j<length v. for_loop n (\<lambda>i w. w[i := f i (w ! i)]) v ! j
             = (if j < n then f j (v ! j) else v ! j)"
    by simp_all
  show ?case
    using IH Suc.prems by (auto simp: for_loop_Suc nth_list_update less_Suc_eq)
qed

lemma for_loop_update_map:
  "n = length v \<Longrightarrow> for_loop n (\<lambda>i w. w[i := f i (w ! i)]) v = map (\<lambda>i. f i (v ! i)) [0..<n]"
  using for_loop_update_nth [of n v f] by (auto intro!: nth_equalityI)

lemma for_loop_assign:
  "length v = n \<Longrightarrow> for_loop n (\<lambda>i w. w[i := g i]) v = map g [0..<n]"
  using for_loop_update_map [of n v "\<lambda>i _. g i"] by simp

lemma JointState_is_compatible_iff:
  "JointState_is_compatible base a b = (base a b \<and> m_names a = m_names b)"
  by (auto simp: JointState_is_compatible_def Let_def for_loop_conj list_eq_iff_nth_eq)

lemma JointState_of_count_eq:
  "JointState_of_count robot_name n =
     Inr \<lparr>m_type = JOINT_STATE, m_name = robot_name, m_empty = True,
          m_names = map (\<lambda>i. ''joint'' @ to_string i) [0..<n],
          m_positions = Zero_vec n, m_velocities = Zero_vec n,
          m_accelerations = Zero_vec n, m_torques = Zero_vec n\<rparr>"
  by (simp add: JointState_of_count_def set_names_count_def JointState_members_def
      get_size_def and_then_def for_loop_assign JointState_initialize_def State_initialize_def
      set_zero_def setZero_def resize_def Zero_vec_def Let_def)

lemma JointState_of_names_eq:
  "JointState_of_names robot_name ns =
     \<lparr>m_type = JOINT_STATE, m_name = robot_name, m_empty = True,
      m_names = ns,
      m_positions = Zero_vec (length ns), m_velocities = Zero_vec (length ns),
      m_accelerations = Zero_vec (length ns), m_torques = Zero_vec (length ns)\<rparr>"
  by (simp add: JointState_of_names_def JointState_members_def
      JointState_initialize_def State_initialize_def
      set_zero_def setZero_def resize_def Zero_vec_def Let_def)

lemma set_all_state_variables_ok:
  assumes "length v = 4 * length (m_names s)"
  shows "set_all_state_variables v s =
     Inr (s\<lparr>m_empty := False,
             m_positions := segment 0 (length (m_names s)) v,
             m_velocities := segment (length (m_names s)) (length (m_names s)) v,
             m_accelerations := segment (2 * length (m_names s)) (length (m_names s)) v,
             m_torques := segment (3 * length (m_names s)) (length (m_names s)) v\<rparr>)"
  using assms
  by (simp add: set_all_state_variables_def Let_def get_size_def and_then_def
      set_positions_def set_velocities_def set_accelerations_def set_torques_def
      set_state_variable_ref_def set_filled_def segment_def)

lemma set_all_state_variables_bad:
  "length v \<noteq> 4 * length (m_names s) \<Longrightarrow> set_all_state_variables v s = Inl IncompatibleSize"
  by (simp add: set_all_state_variables_def Let_def get_size_def)

lemma set_all_state_variables_not_IncompatibleStates:
  "set_all_state_variables v s \<noteq> Inl IncompatibleStates"
  by (cases "length v = 4 * length (m_names s)")
     (simp_all add: set_all_state_variables_ok set_all_state_variables_bad)

lemma length_get_all_state_variables:
  "co_sized s \<Longrightarrow> length (get_all_state_variables s) = 4 * length (m_names s)"
  by (simp add: co_sized_def get_all_state_variables_def get_positions_def get_velocities_def
      get_accelerations_def get_torques_def)

section \<open>Lookup and indexing of joints\<close>

lemma assert_index_in_range_iff:
  "is_JointNotFound (assert_index_in_range i n) = (n < i)"
  by (simp add:  assert_index_in_range_def)

lemma coeff_at_not_JointNotFound: "\<not> is_JointNotFound (coeff_at v i)"
  by (simp add:  coeff_at_def)

lemma assign_at_not_JointNotFound: "\<not> is_JointNotFound (assign_at v i x)"
  by (simp add:  assign_at_def)

lemma getter_JointNotFound:
  "is_JointNotFound (and_then (assert_index_in_range i n) (\<lambda>_. coeff_at v i)) = (n < i)"
  using coeff_at_not_JointNotFound [of v i]
  by (simp add: and_then_def assert_index_in_range_def )

lemma setter_JointNotFound:
  "is_JointNotFound
     (and_then (assert_index_in_range i n)
        (\<lambda>_. and_then (assign_at v i x) (\<lambda>w. Inr (f w)))) = (n < i)"
  by (auto simp: and_then_def assert_index_in_range_def  assign_at_def)

lemma find_first_None: "(find_first ns x = None) = (x \<notin> set ns)"
  by (induction ns) auto

lemma find_first_Some: "find_first ns x = Some i \<Longrightarrow> i < length ns \<and> ns ! i = x"
  by (induction ns arbitrary: i) (auto split: if_splits)

lemma get_joint_index_absent:
  "joint_name \<notin> set (m_names s) \<Longrightarrow>
   get_joint_index s joint_name =
     Inl (JointNotFound (''The joint with name '' @ [CHR 0x27] @ joint_name
            @ [CHR 0x27] @ '' could not be found in the joint state.''))"
  by (simp add: get_joint_index_def find_first_None [symmetric] del: find_first_None)

lemma get_joint_index_present:
  "joint_name \<in> set (m_names s) \<Longrightarrow>
   \<exists>i. get_joint_index s joint_name = Inr i \<and> i < get_size s \<and> m_names s ! i = joint_name"
proof -
  assume "joint_name \<in> set (m_names s)"
  then obtain i where "find_first (m_names s) joint_name = Some i"
    using find_first_None [of "m_names s" joint_name] by auto
  then show ?thesis
    using find_first_Some [of "m_names s" joint_name i]
    by (simp add: get_joint_index_def get_size_def)
qed

text \<open>
  Claim C6. For a joint state of size N, each accessor and setter by index
  (\<open>get_position\<close>, \<open>get_velocity\<close>, \<open>get_acceleration\<close>, \<open>get_torque\<close>,
  \<open>set_position\<close>, \<open>set_velocity\<close>, \<open>set_acceleration\<close>, \<open>set_torque\<close>) throws
  JointNotFound exactly when the index is strictly greater than N. The index N itself
  passes \<open>assert_index_in_range\<close>; on a state whose fields have N coefficients the
  read that follows is outside the vector. \<open>get_joint_index\<close> throws JointNotFound
  with a message that holds the name when the name is not in the list, and does not
  throw it when the name is there.
\<close>

theorem joint_index_bounds:
  "(is_JointNotFound (get_position s i) = (get_size s < i))
   \<and> (is_JointNotFound (get_velocity s i) = (get_size s < i))
   \<and> (is_JointNotFound (get_acceleration s i) = (get_size s < i))
   \<and> (is_JointNotFound (get_torque s i) = (get_size s < i))
   \<and> (is_JointNotFound (set_position x i s) = (get_size s < i))
   \<and> (is_JointNotFound (set_velocity x i s) = (get_size s < i))
   \<and> (is_JointNotFound (set_acceleration x i s) = (get_size s < i))
   \<and> (is_JointNotFound (set_torque x i s) = (get_size s < i))
   \<and> assert_index_in_range (get_size s) (get_size s) = Inr ()
   \<and> (co_sized s \<longrightarrow> get_position s (get_size s) = Inl OutOfRangeAccess)
   \<and> (joint_name \<notin> set (get_names s) \<longrightarrow>
        get_joint_index s joint_name =
          Inl (JointNotFound (''The joint with name '' @ [CHR 0x27] @ joint_name
                 @ [CHR 0x27] @ '' could not be found in the joint state.'')))
   \<and> (joint_name \<in> set (get_names s) \<longrightarrow> \<not> is_JointNotFound (get_joint_index s joint_name))"
proof -
  have g: "is_JointNotFound (get_position s i) = (get_size s < i)"
    "is_JointNotFound (get_velocity s i) = (get_size s < i)"
    "is_JointNotFound (get_acceleration s i) = (get_size s < i)"
    "is_JointNotFound (get_torque s i) = (get_size s < i)"
    unfolding get_position_def get_velocity_def get_acceleration_def get_torque_def
    by (rule getter_JointNotFound)+
  have u: "is_JointNotFound (set_position x i s) = (get_size s < i)"
    "is_JointNotFound (set_velocity x i s) = (get_size s < i)"
    "is_JointNotFound (set_acceleration x i s) = (get_size s < i)"
    "is_JointNotFound (set_torque x i s) = (get_size s < i)"
    unfolding set_position_def set_velocity_def set_acceleration_def set_torque_def Let_def
    by (rule setter_JointNotFound)+
  have a: "assert_index_in_range (get_size s) (get_size s) = Inr ()"
    by (simp add: assert_index_in_range_def)
  have b: "co_sized s \<longrightarrow> get_position s (get_size s) = Inl OutOfRangeAccess"
    by (simp add: get_position_def assert_index_in_range_def and_then_def coeff_at_def
        co_sized_def get_size_def)
  have n: "joint_name \<notin> set (get_names s) \<longrightarrow>
        get_joint_index s joint_name =
          Inl (JointNotFound (''The joint with name '' @ [CHR 0x27] @ joint_name
                 @ [CHR 0x27] @ '' could not be found in the joint state.''))"
    using get_joint_index_absent [of joint_name s] by (simp add: get_names_def)
  have p: "joint_name \<in> set (get_names s) \<longrightarrow> \<not> is_JointNotFound (get_joint_index s joint_name)"
    using get_joint_index_present [of joint_name s]
    by (auto simp: get_names_def )
  from g u a b n p show ?thesis by blast
qed


text \<open>
  The state of the two joints a and b: index 3 is refused, index 2 is not, and the
  name c is not found.
\<close>

theorem joint_index_bounds_witness:
  "is_JointNotFound (get_position (Zero_of_names ''robot'' [''a'', ''b'']) 3)
   \<and> \<not> is_JointNotFound (get_position (Zero_of_names ''robot'' [''a'', ''b'']) 2)
   \<and> get_position (Zero_of_names ''robot'' [''a'', ''b'']) 2 = Inl OutOfRangeAccess
   \<and> get_joint_index (Zero_of_names ''robot'' [''a'', ''b'']) ''c'' =
       Inl (JointNotFound ''The joint with name 'c' could not be found in the joint state.'')
   \<and> \<not> is_JointNotFound (get_joint_index (Zero_of_names ''robot'' [''a'', ''b'']) ''b'')"
proof -
  let ?s = "Zero_of_names ''robot'' [''a'', ''b'']"
  have s: "?s = \<lparr>m_type = JOINT_STATE, m_name = ''robot'', m_empty = False,
      m_names = [''a'', ''b''],
      m_positions = [Fin 0, Fin 0], m_velocities = [Fin 0, Fin 0],
      m_accelerations = [Fin 0, Fin 0], m_torques = [Fin 0, Fin 0]\<rparr>"
    by (simp add: Zero_of_names_def JointState_of_names_eq set_filled_def Zero_vec_def)
  have n: "get_size ?s = 2" "co_sized ?s" "get_names ?s = [''a'', ''b'']"
    by (simp_all add: s get_size_def co_sized_def get_names_def)
  show ?thesis
    using joint_index_bounds [of ?s 3 _ "''c''"] joint_index_bounds [of ?s 2 _ "''b''"]
    by (simp add: n)
qed

section \<open>Compatibility of spatial states and of base states\<close>

lemma SpatialState_is_incompatible_Spatial:
  "SpatialState_is_incompatible a (Spatial b) =
     Inr (m_name a \<noteq> m_reference_frame b
          \<and> m_reference_frame a \<noteq> m_name b
          \<and> m_reference_frame a \<noteq> m_reference_frame b)"
  by (simp add: SpatialState_is_incompatible_def get_name_def get_reference_frame_def)

text \<open>
  Claim C1. Two spatial states A and B are compatible exactly when A's name is B's
  reference frame, or A's reference frame is B's name, or both have the same
  reference frame: \<open>is_incompatible\<close> returns the negation of this disjunction. The
  state ee in frame base and the state base in frame world are compatible.
  Compatibility is not transitive: there are x, y, z with x and y compatible, y and z
  compatible, and x and z incompatible.
\<close>

theorem spatial_compatibility:
  "SpatialState_is_incompatible a (Spatial b) =
     Inr (\<not> (get_name a = get_reference_frame b
             \<or> get_reference_frame a = get_name b
             \<or> get_reference_frame a = get_reference_frame b))
   \<and> SpatialState_is_incompatible (SpatialState_ctor SPATIAL_STATE ''ee'' ''base'')
        (Spatial (SpatialState_ctor SPATIAL_STATE ''base'' ''world'')) = Inr False
   \<and> (\<exists>(x::SpatialState) y z. SpatialState_is_incompatible x (Spatial y) = Inr False
         \<and> SpatialState_is_incompatible y (Spatial z) = Inr False
         \<and> SpatialState_is_incompatible x (Spatial z) = Inr True)"
proof -
  have general: "SpatialState_is_incompatible a (Spatial b) =
     Inr (\<not> (get_name a = get_reference_frame b
             \<or> get_reference_frame a = get_name b
             \<or> get_reference_frame a = get_reference_frame b))"
    by (simp add: SpatialState_is_incompatible_Spatial get_name_def get_reference_frame_def)
  have example: "SpatialState_is_incompatible (SpatialState_ctor SPATIAL_STATE ''ee'' ''base'')
        (Spatial (SpatialState_ctor SPATIAL_STATE ''base'' ''world'')) = Inr False"
    by (simp add: SpatialState_is_incompatible_Spatial SpatialState_ctor_def)
  let ?x = "SpatialState_ctor SPATIAL_STATE ''a'' ''b''"
  let ?y = "SpatialState_ctor SPATIAL_STATE ''b'' ''w''"
  let ?z = "SpatialState_ctor SPATIAL_STATE ''c'' ''w''"
  have "SpatialState_is_incompatible ?x (Spatial ?y) = Inr False
         \<and> SpatialState_is_incompatible ?y (Spatial ?z) = Inr False
         \<and> SpatialState_is_incompatible ?x (Spatial ?z) = Inr True"
    by (simp add: SpatialState_is_incompatible_Spatial SpatialState_ctor_def)
  then have chain: "\<exists>(x::SpatialState) y z. SpatialState_is_incompatible x (Spatial y) = Inr False
         \<and> SpatialState_is_incompatible y (Spatial z) = Inr False
         \<and> SpatialState_is_incompatible x (Spatial z) = Inr (True::bool)"
    by blast
  from general example chain show ?thesis by blast
qed

text \<open>The state tool in frame arm and the state camera in frame world are incompatible.\<close>

theorem spatial_compatibility_witness:
  "SpatialState_is_incompatible (SpatialState_ctor SPATIAL_STATE ''tool'' ''arm'')
     (Spatial (SpatialState_ctor SPATIAL_STATE ''camera'' ''world'')) = Inr True"
proof -
  have "get_name (SpatialState_ctor SPATIAL_STATE ''tool'' ''arm'') = ''tool''"
    "get_reference_frame (SpatialState_ctor SPATIAL_STATE ''tool'' ''arm'') = ''arm''"
    "get_name (SpatialState_ctor SPATIAL_STATE ''camera'' ''world'') = ''camera''"
    "get_reference_frame (SpatialState_ctor SPATIAL_STATE ''camera'' ''world'') = ''world''"
    by (simp_all add: SpatialState_ctor_def get_name_def get_reference_frame_def)
  then show ?thesis
    using spatial_compatibility [of "SpatialState_ctor SPATIAL_STATE ''tool'' ''arm''"
          "SpatialState_ctor SPATIAL_STATE ''camera'' ''world''", THEN conjunct1]
    by simp
qed

text \<open>
  Claim C5, as the code has it. The base check \<open>State::is_incompatible\<close> returns
  false for every two states: it does not compare the type tags.
\<close>

theorem base_state_never_incompatible:
  "State_is_incompatible a b = False"
  by (simp add: State_is_incompatible_def)

text \<open>A state of type STATE and one of type JOINT_STATE are not reported incompatible.\<close>

theorem base_state_never_incompatible_witness:
  "State_is_incompatible (State_of_name ''a'') (set_type JOINT_STATE (State_of_name ''b''))
     = False"
  using base_state_never_incompatible
          [of "State_of_name ''a''" "set_type JOINT_STATE (State_of_name ''b'')"]
  by simp

text \<open>
  Claim C5 as stated fails: for these two states the base check reports no
  incompatibility, and their type tags differ.
\<close>

theorem base_compatibility_counterexample:
  "\<not> ((\<not> State_is_incompatible (State_of_name ''a'')
              (set_type JOINT_STATE (State_of_name ''b'')))
       = (get_type (State_of_name ''a'')
            = get_type (set_type JOINT_STATE (State_of_name ''b''))))"
  by (simp add: State_is_incompatible_def State_of_name_def set_type_def get_type_def)

section \<open>Operators of joint states\<close>

lemma plus_assign_cases:
  "plus_assign base state s =
     (if is_empty s \<or> is_empty state then Inl EmptyState
      else if \<not> (base s state \<and> m_names s = m_names state) then Inl IncompatibleStates
      else set_all_state_variables
             (vec_plus (get_all_state_variables s) (get_all_state_variables state)) s)"
  by (simp add: plus_assign_def JointState_is_compatible_iff)

lemma minus_assign_cases:
  "minus_assign base state s =
     (if is_empty s \<or> is_empty state then Inl EmptyState
      else if \<not> (base s state \<and> m_names s = m_names state) then Inl IncompatibleStates
      else set_all_state_variables
             (vec_minus (get_all_state_variables s) (get_all_state_variables state)) s)"
  by (simp add: minus_assign_def JointState_is_compatible_iff)

text \<open>
  Claim C3. For two non-empty joint states A and B, whatever the base check of
  \<open>State\<close> answers: when the lists of joint names differ (in size or in the order of
  their elements), \<open>+\<close>, \<open>-\<close>, \<open>+=\<close> and \<open>-=\<close> throw IncompatibleStates; when the
  lists are identical and the base check passes, they do not throw it.
\<close>

theorem joint_operators_need_identical_names:
  assumes "\<not> is_empty a" and "\<not> is_empty b"
  shows "(m_names a \<noteq> m_names b \<longrightarrow>
            JointState_plus base a b = Inl IncompatibleStates
          \<and> JointState_minus base a b = Inl IncompatibleStates
          \<and> plus_assign base b a = Inl IncompatibleStates
          \<and> minus_assign base b a = Inl IncompatibleStates)
       \<and> (m_names a = m_names b \<and> base a b \<longrightarrow>
            JointState_plus base a b \<noteq> Inl IncompatibleStates
          \<and> JointState_minus base a b \<noteq> Inl IncompatibleStates
          \<and> plus_assign base b a \<noteq> Inl IncompatibleStates
          \<and> minus_assign base b a \<noteq> Inl IncompatibleStates)"
  using assms
  by (simp add: JointState_plus_def JointState_minus_def copy_def plus_assign_cases
      minus_assign_cases set_all_state_variables_not_IncompatibleStates)

text \<open>
  The names j1, j2 against the names j2, j1: the sets of names are equal and the
  operators throw IncompatibleStates.
\<close>

theorem joint_operators_need_identical_names_witness:
  "set (m_names (Zero_of_names ''robot'' [''j1'', ''j2'']))
     = set (m_names (Zero_of_names ''robot'' [''j2'', ''j1'']))
   \<and> JointState_plus State_is_compatible (Zero_of_names ''robot'' [''j1'', ''j2''])
        (Zero_of_names ''robot'' [''j2'', ''j1'']) = Inl IncompatibleStates
   \<and> JointState_minus State_is_compatible (Zero_of_names ''robot'' [''j1'', ''j2''])
        (Zero_of_names ''robot'' [''j2'', ''j1'']) = Inl IncompatibleStates"
proof -
  let ?a = "Zero_of_names ''robot'' [''j1'', ''j2'']"
  let ?b = "Zero_of_names ''robot'' [''j2'', ''j1'']"
  have e: "\<not> is_empty ?a" "\<not> is_empty ?b"
    by (simp_all add: Zero_of_names_def JointState_of_names_eq set_filled_def is_empty_def)
  have n: "m_names ?a = [''j1'', ''j2'']" "m_names ?b = [''j2'', ''j1'']"
    by (simp_all add: Zero_of_names_def JointState_of_names_eq set_filled_def)
  show ?thesis
    using joint_operators_need_identical_names [OF e, of State_is_compatible]
    by (auto simp: n)
qed

lemma times_assign_scalar_ok:
  assumes "\<not> is_empty s" and "co_sized s"
  shows "times_assign_scalar l s =
     Inr (s\<lparr>m_positions := scale l (m_positions s),
             m_velocities := scale l (m_velocities s),
             m_accelerations := scale l (m_accelerations s),
             m_torques := scale l (m_torques s)\<rparr>)"
proof -
  have len: "length (scale l (get_all_state_variables s)) = 4 * length (m_names s)"
    using assms(2) by (simp add: scale_def length_get_all_state_variables)
  have e: "s\<lparr>m_empty := False\<rparr> = s"
    using assms(1) by (simp add: is_empty_def)
  have seg: "segment 0 (length (m_names s)) (scale l (get_all_state_variables s)) = scale l (m_positions s)"
    "segment (length (m_names s)) (length (m_names s)) (scale l (get_all_state_variables s)) = scale l (m_velocities s)"
    "segment (2 * length (m_names s)) (length (m_names s)) (scale l (get_all_state_variables s)) = scale l (m_accelerations s)"
    "segment (3 * length (m_names s)) (length (m_names s)) (scale l (get_all_state_variables s)) = scale l (m_torques s)"
    using assms(2)
    by (simp_all add: segment_def scale_def get_all_state_variables_def co_sized_def
        get_positions_def get_velocities_def get_accelerations_def get_torques_def
        drop_map take_map)
  show ?thesis
    using assms(1) e
    by (simp add: times_assign_scalar_def set_all_state_variables_ok [OF len] seg)
qed



section \<open>Construction of joint states\<close>


lemma Zero_of_names_eq:
  "Zero_of_names robot_name ns =
     \<lparr>m_type = JOINT_STATE, m_name = robot_name, m_empty = False,
      m_names = ns,
      m_positions = Zero_vec (length ns), m_velocities = Zero_vec (length ns),
      m_accelerations = Zero_vec (length ns), m_torques = Zero_vec (length ns)\<rparr>"
  by (simp add: Zero_of_names_def JointState_of_names_eq set_filled_def)







section \<open>Division of a joint state by a scalar\<close>

lemma divide_scalar_ok:
  assumes "\<not> is_empty s" and "co_sized s"
  shows "divide_assign_scalar lambda s =
     Inr (s\<lparr>m_positions := scale (Fin 1 / lambda) (m_positions s),
             m_velocities := scale (Fin 1 / lambda) (m_velocities s),
             m_accelerations := scale (Fin 1 / lambda) (m_accelerations s),
             m_torques := scale (Fin 1 / lambda) (m_torques s)\<rparr>)"
  by (simp add: divide_assign_scalar_def times_assign_scalar_ok [OF assms])

lemma robot_times_assign_scalar_eq: "robot_times_assign_scalar l s = times_assign_scalar l s"
  by (simp add: robot_times_assign_scalar_def times_assign_scalar_def)

text \<open>
  Claim C8, as the code has it. Dividing a joint state by a scalar makes no check of
  the scalar. For a state that is not empty and whose fields are co-sized to its
  names, and for every scalar, zero included, \<open>/\<close> and \<open>/=\<close> of both JointState
  classes return the state with every field multiplied by the inverse of the scalar;
  on an empty state they throw EmptyState.
\<close>

theorem division_by_scalar_has_no_zero_check:
  "(\<not> is_empty s \<and> co_sized s \<longrightarrow>
      divide_assign_scalar lambda s =
        Inr (s\<lparr>m_positions := scale (Fin 1 / lambda) (m_positions s),
                m_velocities := scale (Fin 1 / lambda) (m_velocities s),
                m_accelerations := scale (Fin 1 / lambda) (m_accelerations s),
                m_torques := scale (Fin 1 / lambda) (m_torques s)\<rparr>)
    \<and> divide_scalar s lambda = divide_assign_scalar lambda s
    \<and> robot_divide_assign_scalar lambda s = divide_assign_scalar lambda s
    \<and> robot_divide_scalar s lambda = divide_assign_scalar lambda s)
   \<and> (is_empty s \<longrightarrow>
      divide_assign_scalar lambda s = Inl EmptyState
    \<and> divide_scalar s lambda = Inl EmptyState
    \<and> robot_divide_assign_scalar lambda s = Inl EmptyState
    \<and> robot_divide_scalar s lambda = Inl EmptyState)"
proof -
  have same: "divide_scalar s lambda = divide_assign_scalar lambda s"
    "robot_divide_assign_scalar lambda s = divide_assign_scalar lambda s"
    "robot_divide_scalar s lambda = divide_assign_scalar lambda s"
    by (simp_all add: divide_scalar_def robot_divide_scalar_def copy_def
        robot_divide_assign_scalar_def divide_assign_scalar_def robot_times_assign_scalar_eq)
  have e: "is_empty s \<longrightarrow> divide_assign_scalar lambda s = Inl EmptyState"
    by (simp add: divide_assign_scalar_def times_assign_scalar_def)
  show ?thesis
    using same e divide_scalar_ok [of s lambda] by simp
qed

lemma one_joint_by_setter:
  "set_position x 0 (Zero_of_names ''robot'' [''j'']) = Inr (one_joint x)"
  by (simp add: Zero_of_names_eq set_position_def assert_index_in_range_def and_then_def
      get_size_def assign_at_def set_filled_def Zero_vec_def one_joint_def)

text \<open>The joint at position 1, divided by 2, is at position 1/2.\<close>

theorem division_by_scalar_has_no_zero_check_witness:
  "\<not> is_empty (one_joint (Fin 1)) \<and> co_sized (one_joint (Fin 1))
   \<and> divide_scalar (one_joint (Fin 1)) (Fin 2) = Inr (one_joint (Fin (1 / 2)))
   \<and> divide_assign_scalar (Fin 2) ((one_joint (Fin 1))\<lparr>m_empty := True\<rparr>) = Inl EmptyState"
proof -
  have h: "\<not> is_empty (one_joint (Fin 1))" "co_sized (one_joint (Fin 1))"
    by (simp_all add: one_joint_def is_empty_def co_sized_def)
  have e: "is_empty ((one_joint (Fin 1))\<lparr>m_empty := True\<rparr>)"
    by (simp add: is_empty_def)
  show ?thesis
    using division_by_scalar_has_no_zero_check [of "one_joint (Fin 1)" "Fin 2"]
      division_by_scalar_has_no_zero_check [of "(one_joint (Fin 1))\<lparr>m_empty := True\<rparr>" "Fin 2"]
      h e
    by (simp add: one_joint_def scale_def)
qed

text \<open>
  Claim C8 as stated fails: the joint at position 1, a state built by \<open>Zero\<close> and
  \<open>set_position\<close>, divided by 0.0 throws nothing; the result holds an infinite
  position and NaN in the other fields.
\<close>

theorem division_by_zero_counterexample:
  "set_position (Fin 1) 0 (Zero_of_names ''robot'' [''j'']) = Inr (one_joint (Fin 1))
   \<and> \<not> is_empty (one_joint (Fin 1))
   \<and> divide_scalar (one_joint (Fin 1)) (Fin 0) =
       Inr ((one_joint PInf)\<lparr>m_velocities := [NaN], m_accelerations := [NaN], m_torques := [NaN]\<rparr>)
   \<and> divide_assign_scalar (Fin 0) (one_joint (Fin 1)) =
       Inr ((one_joint PInf)\<lparr>m_velocities := [NaN], m_accelerations := [NaN], m_torques := [NaN]\<rparr>)
   \<and> robot_divide_scalar (one_joint (Fin 1)) (Fin 0) =
       Inr ((one_joint PInf)\<lparr>m_velocities := [NaN], m_accelerations := [NaN], m_torques := [NaN]\<rparr>)"
proof -
  have h: "\<not> is_empty (one_joint (Fin 1))" "co_sized (one_joint (Fin 1))"
    by (simp_all add: one_joint_def is_empty_def co_sized_def)
  have inv: "Fin 1 / Fin 0 = PInf"
    by (simp add: divide_double_def)
  have d: "divide_assign_scalar (Fin 0) (one_joint (Fin 1)) =
       Inr ((one_joint PInf)\<lparr>m_velocities := [NaN], m_accelerations := [NaN], m_torques := [NaN]\<rparr>)"
    by (simp add: divide_scalar_ok [OF h] inv) (simp add: one_joint_def scale_def times_double_def)
  show ?thesis
    using h(1) d
    by (simp add: one_joint_by_setter divide_scalar_def robot_divide_scalar_def copy_def
        robot_divide_assign_scalar_def robot_times_assign_scalar_eq
        divide_assign_scalar_def [symmetric])
qed

section \<open>The emptiness check of the operators\<close>

text \<open>
  The operators of the sources that check \<open>is_empty\<close> first: on an empty state they
  throw EmptyState, whatever the other arguments are.
\<close>

lemma operators_that_check_empty:
  assumes "is_empty s"
  shows "times_assign_scalar l s = Inl EmptyState"
    and "times_scalar s l = Inl EmptyState"
    and "scalar_times l s = Inl EmptyState"
    and "divide_assign_scalar l s = Inl EmptyState"
    and "divide_scalar s l = Inl EmptyState"
    and "plus_assign base t s = Inl EmptyState"
    and "plus_assign base s t = Inl EmptyState"
    and "JointState_plus base s t = Inl EmptyState"
    and "minus_assign base t s = Inl EmptyState"
    and "minus_assign base s t = Inl EmptyState"
    and "JointState_minus base s t = Inl EmptyState"
    and "dist base s t v = Inl EmptyState"
    and "dist base t s v = Inl EmptyState"
    and "robot_times_assign_scalar l s = Inl EmptyState"
  using assms
  by (simp_all add: times_assign_scalar_def times_scalar_def scalar_times_def copy_def
      divide_assign_scalar_def divide_scalar_def plus_assign_def minus_assign_def
      JointState_plus_def JointState_minus_def dist_def robot_times_assign_scalar_def)

lemma cartesian_operators_that_check_empty:
  assumes "is_empty c"
  shows "CartesianPose_divide_duration qlog c dt = Inl EmptyState"
    and "CartesianAcceleration_times_assign_matrix m c = Inl EmptyState"
    and "CartesianAcceleration_times_duration c dt = Inl EmptyState"
  using assms
  by (simp_all add: CartesianPose_divide_duration_def
      CartesianAcceleration_times_assign_matrix_def CartesianAcceleration_times_duration_def)

lemma robot_addition_does_not_check_empty:
  "robot_plus_assign compatible t s \<noteq> Inl EmptyState"
  "robot_minus_assign compatible t s \<noteq> Inl EmptyState"
  by (simp_all add: robot_plus_assign_def robot_minus_assign_def
      set_all_state_variables_def Let_def and_then_def set_positions_def set_velocities_def
      set_accelerations_def set_torques_def set_state_variable_ref_def)

text \<open>
  Claim C4 fails on the gains of a joint state. The state that the constructor
  \<open>JointState("robot", 1)\<close> returns is empty; multiplied by an array of four ones,
  or by the 4x4 identity matrix, it throws nothing and comes back marked as filled;
  multiplied by a 1x1 matrix it throws IncompatibleSize, not EmptyState.
\<close>

theorem gains_do_not_check_empty:
  "\<exists>j. JointState_of_count ''robot'' 1 = Inr j
       \<and> is_empty j
       \<and> times_assign_array (Ones 4) j = Inr (set_filled j)
       \<and> times_array j (Ones 4) = Inr (set_filled j)
       \<and> array_times (Ones 4) j = Inr (set_filled j)
       \<and> times_assign_matrix Identity4 j = Inr (set_filled j)
       \<and> times_matrix j Identity4 = Inr (set_filled j)
       \<and> matrix_times Identity4 j = Inr (set_filled j)
       \<and> times_assign_matrix \<lparr>rows = 1, cols = 1, coeffs = [[Fin 2]]\<rparr> j = Inl IncompatibleSize
       \<and> times_assign_scalar (Fin 1) j = Inl EmptyState"
proof -
  let ?j = "\<lparr>m_type = JOINT_STATE, m_name = ''robot'', m_empty = True,
          m_names = map (\<lambda>i. ''joint'' @ to_string i) [0..<1],
          m_positions = Zero_vec 1, m_velocities = Zero_vec 1,
          m_accelerations = Zero_vec 1, m_torques = Zero_vec 1\<rparr>"
  have all: "get_state_variable ALL_VARIABLES ?j = [Fin 0, Fin 0, Fin 0, Fin 0]"
    by (simp add: get_all_state_variables_def get_positions_def get_velocities_def
        get_accelerations_def get_torques_def Zero_vec_def)
  have set_all: "set_state_variable [Fin 0, Fin 0, Fin 0, Fin 0] ALL_VARIABLES ?j = Inr (set_filled ?j)"
    by (simp add: set_all_state_variables_ok segment_def set_filled_def Zero_vec_def)
  have a: "times_assign_array (Ones 4) ?j = Inr (set_filled ?j)"
    unfolding times_assign_array_def multiply_state_variable_array_def Let_def all
    by (simp add: Ones_def cwise_product_def numeral_eq_Suc set_all [simplified])
  have m: "times_assign_matrix Identity4 ?j = Inr (set_filled ?j)"
    unfolding times_assign_matrix_def multiply_state_variable_matrix_def Let_def all
    by (simp add: Identity4_def mat_vec_def dot_def set_all [simplified])
  have b: "times_assign_matrix \<lparr>rows = 1, cols = 1, coeffs = [[Fin 2]]\<rparr> ?j = Inl IncompatibleSize"
    unfolding times_assign_matrix_def multiply_state_variable_matrix_def Let_def all
    by simp
  have e: "is_empty ?j"
    by (simp add: is_empty_def)
  have s: "times_assign_scalar (Fin 1) ?j = Inl EmptyState"
    using e by (rule operators_that_check_empty)
  show ?thesis
    using a m b e s
    by (simp add: JointState_of_count_eq times_array_def array_times_def times_matrix_def
        matrix_times_def copy_def)
qed

section \<open>A pose divided by a duration\<close>

text \<open>
  Claim C2. For every pose P that is not empty and every duration dt (a count of
  nanoseconds), P / dt is a twist with the name and the reference frame of P; its
  linear velocity is the position of P divided by dt in seconds; its angular velocity
  is twice the vector part of the logarithm of the orientation of P, divided by dt in
  seconds, the logarithm having all its coefficients negated first when its dot
  product with the orientation is negative. Dividing an empty pose throws EmptyState.
  The logarithm \<open>qlog\<close> is any function on quaternions.
\<close>

theorem pose_divided_by_duration:
  "(\<not> is_empty p \<longrightarrow>
      (\<exists>t. CartesianPose_divide_duration qlog p dt = Inr t
         \<and> get_type t = CARTESIAN_TWIST
         \<and> get_name t = get_name p
         \<and> get_reference_frame t = get_reference_frame p
         \<and> \<not> is_empty t
         \<and> get_linear_velocity t =
             vec3_divide (get_position3 p) (Fin (of_int dt) / Fin 1000000000)
         \<and> get_angular_velocity t =
             vec3_divide
               (vec3_scale (Fin 2)
                  (quat_vec
                     (if quat_dot (get_orientation p) (qlog (get_orientation p)) < Fin 0
                      then quat_negated_coeffs (qlog (get_orientation p))
                      else qlog (get_orientation p))))
               (Fin (of_int dt) / Fin 1000000000)))
   \<and> (is_empty p \<longrightarrow> CartesianPose_divide_duration qlog p dt = Inl EmptyState)"
  by (simp add: CartesianPose_divide_duration_def Let_def CartesianTwist_ctor_def
      CartesianState_ctor_def set_type_def set_filled_def set_linear_velocity_def
      set_angular_velocity_def get_type_def get_name_def get_reference_frame_def
      is_empty_def get_linear_velocity_def get_angular_velocity_def)

text \<open>
  The pose ee in frame base at position (1, 2, 3), turned by a half turn about z,
  over two seconds. With a logarithm that returns (0; 0, 0, -1) the sign step negates
  it: the twist has linear velocity (1/2, 1, 3/2) and angular velocity (0, 0, 1).
\<close>

theorem pose_divided_by_duration_witness:
  "\<exists>t. CartesianPose_divide_duration
          (\<lambda>q. \<lparr>qw = Fin 0, qx = Fin 0, qy = Fin 0, qz = Fin (- 1)\<rparr>)
          ((set_type CARTESIAN_POSE (CartesianState_Identity ''ee'' ''base''))
             \<lparr>m_position := \<lparr>vx = Fin 1, vy = Fin 2, vz = Fin 3\<rparr>,
              m_orientation := \<lparr>qw = Fin 0, qx = Fin 0, qy = Fin 0, qz = Fin 1\<rparr>\<rparr>)
          2000000000 = Inr t
      \<and> get_name t = ''ee'' \<and> get_reference_frame t = ''base''
      \<and> get_linear_velocity t = \<lparr>vx = Fin (1 / 2), vy = Fin 1, vz = Fin (3 / 2)\<rparr>
      \<and> get_angular_velocity t = \<lparr>vx = Fin 0, vy = Fin 0, vz = Fin 1\<rparr>"
proof -
  let ?p = "(set_type CARTESIAN_POSE (CartesianState_Identity ''ee'' ''base''))
             \<lparr>m_position := \<lparr>vx = Fin 1, vy = Fin 2, vz = Fin 3\<rparr>,
              m_orientation := \<lparr>qw = Fin 0, qx = Fin 0, qy = Fin 0, qz = Fin 1\<rparr>\<rparr>"
  have h: "\<not> is_empty ?p"
    by (simp add: is_empty_def set_type_def CartesianState_Identity_def set_filled_def)
  have g: "get_name ?p = ''ee''" "get_reference_frame ?p = ''base''"
    "get_position3 ?p = \<lparr>vx = Fin 1, vy = Fin 2, vz = Fin 3\<rparr>"
    "get_orientation ?p = \<lparr>qw = Fin 0, qx = Fin 0, qy = Fin 0, qz = Fin 1\<rparr>"
    by (simp_all add: get_name_def get_reference_frame_def get_position3_def
        get_orientation_def set_type_def CartesianState_Identity_def set_filled_def
        CartesianState_ctor_def)
  show ?thesis
    using pose_divided_by_duration
            [of ?p "\<lambda>q. \<lparr>qw = Fin 0, qx = Fin 0, qy = Fin 0, qz = Fin (- 1)\<rparr>" 2000000000] h
    unfolding g
    by (auto simp: vec3_divide_def vec3_scale_def quat_vec_def quat_dot_def
        quat_negated_coeffs_def)
qed

section \<open>The vector of an ellipsoid\<close>

text \<open>
  Claim C9, as the code has it. For every ellipsoid that is not empty and that holds
  at least two axis lengths, \<open>to_std_vector\<close> returns the six values center x,
  center y, center z, rotation angle, first axis length, second axis length, in that
  order. On an empty ellipsoid it throws EmptyState.
\<close>

theorem ellipsoid_to_std_vector:
  "(\<not> is_empty e \<and> 2 \<le> length (get_axis_lengths e) \<longrightarrow>
      to_std_vector e =
        Inr [vx (get_center_position e), vy (get_center_position e),
             vz (get_center_position e), get_rotation_angle e,
             get_axis_lengths e ! 0, get_axis_lengths e ! 1])
   \<and> (is_empty e \<longrightarrow> to_std_vector e = Inl EmptyState)"
  by (simp add: to_std_vector_def get_axis_length_def get_axis_lengths_def coeff_at_def
      and_then_def)

text \<open>
  The sample ellipsoid with the axis lengths 2 and 3 and the rotation angle 1/2: the
  vector is 0, 0, 0, 1/2, 2, 3. Before any setter is called it is empty.
\<close>

theorem ellipsoid_to_std_vector_witness:
  "to_std_vector (set_rotation_angle (Fin (1 / 2)) (set_axis_lengths [Fin 2, Fin 3] sample_ellipsoid))
     = Inr [Fin 0, Fin 0, Fin 0, Fin (1 / 2), Fin 2, Fin 3]
   \<and> to_std_vector sample_ellipsoid = Inl EmptyState"
proof -
  let ?e = "set_rotation_angle (Fin (1 / 2)) (set_axis_lengths [Fin 2, Fin 3] sample_ellipsoid)"
  have h: "\<not> is_empty ?e" "2 \<le> length (get_axis_lengths ?e)" "is_empty sample_ellipsoid"
    by (simp_all add: is_empty_def set_rotation_angle_def set_axis_lengths_def set_empty_def
        get_axis_lengths_def sample_ellipsoid_def)
  have g: "get_center_position ?e = \<lparr>vx = Fin 0, vy = Fin 0, vz = Fin 0\<rparr>"
    "get_rotation_angle ?e = Fin (1 / 2)" "get_axis_lengths ?e = [Fin 2, Fin 3]"
    by (simp_all add: get_center_position_def get_position3_def get_rotation_angle_def
        get_axis_lengths_def set_rotation_angle_def set_axis_lengths_def set_empty_def
        sample_ellipsoid_def set_type_def CartesianState_Identity_def set_filled_def
        CartesianState_ctor_def Vector3d_Zero_def)
  show ?thesis
    using ellipsoid_to_std_vector [of ?e] ellipsoid_to_std_vector [of sample_ellipsoid] h
    unfolding g
    by simp
qed

text \<open>
  Claim C9 as stated fails: \<open>set_axis_lengths\<close> takes a vector of any size and marks
  the ellipsoid as filled. With a single axis length the ellipsoid is not empty and
  \<open>to_std_vector\<close> reads the second axis length outside the vector.
\<close>

theorem ellipsoid_to_std_vector_counterexample:
  "\<not> is_empty (set_axis_lengths [Fin 1] sample_ellipsoid)
   \<and> to_std_vector (set_axis_lengths [Fin 1] sample_ellipsoid) = Inl OutOfRangeAccess"
  by (simp add: to_std_vector_def set_axis_lengths_def set_empty_def is_empty_def
      sample_ellipsoid_def get_axis_length_def coeff_at_def and_then_def)

section \<open>Clamping\<close>

lemma times_Fin_1 [simp]: "x * Fin 1 = x"
  by (cases x) (simp_all add: times_double_def)

lemma dead_zone_holds_zero:
  assumes "\<bar>x\<bar> < p"
  shows "\<bar>Fin 0\<bar> < p"
  using assms by (cases x; cases p) (simp_all add: less_double_def abs_double_def)

lemma clamp_value_idem_unscaled:
  assumes "\<not> \<bar>x\<bar> > mx"
  shows "clamp_value rnd mx nr (clamp_value rnd mx nr x) = clamp_value rnd mx nr x"
proof (cases "ne nr (Fin 0) \<and> \<bar>x\<bar> < fl rnd (nr * mx)")
  case True
  then have "\<bar>Fin 0\<bar> < fl rnd (nr * mx)"
    using dead_zone_holds_zero by blast
  with True have z: "clamp_value rnd mx nr (Fin 0) = Fin 0"
    unfolding clamp_value_def by (simp only: simp_thms if_True)
  from True have e: "clamp_value rnd mx nr x = Fin 0"
    unfolding clamp_value_def by (simp only: simp_thms if_True)
  show ?thesis
    by (simp only: e z)
next
  case False
  with assms have e: "clamp_value rnd mx nr x = x"
    unfolding clamp_value_def by (simp only: if_False)
  show ?thesis
    by (simp only: e)
qed

lemma robot_clamp_value_idem:
  assumes "Fin 0 \<le> mx" and "exact rnd mx" and "exact rnd (- mx)" and "exact rnd x"
  shows "robot_clamp_value rnd mx (Fin 0) (robot_clamp_value rnd mx (Fin 0) x)
           = robot_clamp_value rnd mx (Fin 0) x"
  using assms
  by (cases x; cases mx)
     (auto simp: robot_clamp_value_def Let_def less_double_def less_eq_double_def
        plus_double_def minus_double_def uminus_double_def)

lemma clamp_step_eq:
  "clamp_step rnd M N i v = v[i := clamp_value rnd (M ! i) (N ! i) (v ! i)]"
  by (simp add: clamp_step_def clamp_value_def)

lemma robot_clamp_step_eq:
  "robot_clamp_step rnd M N i v = v[i := robot_clamp_value rnd (M ! i) (N ! i) (v ! i)]"
  by (simp add: robot_clamp_step_def robot_clamp_value_def Let_def)

lemma clamp_loop:
  assumes "length v = n"
  shows "for_loop n (clamp_step rnd M N) v
           = map (\<lambda>i. clamp_value rnd (M ! i) (N ! i) (v ! i)) [0..<n]"
proof -
  have "clamp_step rnd M N = (\<lambda>i w. w[i := clamp_value rnd (M ! i) (N ! i) (w ! i)])"
    by (intro ext) (rule clamp_step_eq)
  then show ?thesis
    using for_loop_update_map [of n v "\<lambda>i. clamp_value rnd (M ! i) (N ! i)"] assms by simp
qed

lemma robot_clamp_loop:
  assumes "length v = n"
  shows "for_loop n (robot_clamp_step rnd M N) v
           = map (\<lambda>i. robot_clamp_value rnd (M ! i) (N ! i) (v ! i)) [0..<n]"
proof -
  have "robot_clamp_step rnd M N
          = (\<lambda>i w. w[i := robot_clamp_value rnd (M ! i) (N ! i) (w ! i)])"
    by (intro ext) (rule robot_clamp_step_eq)
  then show ?thesis
    using for_loop_update_map [of n v "\<lambda>i. robot_clamp_value rnd (M ! i) (N ! i)"] assms
    by simp
qed

lemma scaled_Ones: "i < n \<Longrightarrow> scale l (Ones n) ! i = l"
  by (simp add: scale_def Ones_def)

lemma length_scaled_Ones [simp]: "length (scale l (Ones n)) = n"
  by (simp add: scale_def Ones_def)

lemma map_constant_arrays:
  "map (\<lambda>i. f (scale mx (Ones (length v)) ! i) (scale nr (Ones (length v)) ! i) (v ! i))
     [0..<length v] = map (f mx nr) v"
  by (auto intro!: nth_equalityI simp: scaled_Ones)

lemma clamp_state_variable_eq:
  "clamp_state_variable rnd mx var nr s =
     set_state_variable (map (clamp_value rnd mx nr) (get_state_variable var s)) var s"
  by (simp add: clamp_state_variable_def clamp_state_variable_array_def Let_def
      clamp_loop map_constant_arrays)

lemma robot_clamp_state_variable_eq:
  "robot_clamp_state_variable rnd mx var nr s =
     set_state_variable (map (robot_clamp_value rnd mx nr) (get_state_variable var s)) var s"
  by (simp add: robot_clamp_state_variable_def robot_clamp_state_variable_array_def Let_def
      robot_clamp_loop map_constant_arrays)

lemma set_state_variable_map:
  assumes "co_sized s"
  shows "set_state_variable (map f (get_state_variable var s)) var s = Inr (map_variable f var s)"
proof (cases var)
  case ALL_VARIABLES
  have len: "length (map f (get_all_state_variables s)) = 4 * length (m_names s)"
    using assms by (simp add: length_get_all_state_variables)
  have seg: "segment 0 (length (m_names s)) (map f (get_all_state_variables s)) = map f (m_positions s)"
    "segment (length (m_names s)) (length (m_names s)) (map f (get_all_state_variables s)) = map f (m_velocities s)"
    "segment (2 * length (m_names s)) (length (m_names s)) (map f (get_all_state_variables s)) = map f (m_accelerations s)"
    "segment (3 * length (m_names s)) (length (m_names s)) (map f (get_all_state_variables s)) = map f (m_torques s)"
    using assms
    by (simp_all add: segment_def get_all_state_variables_def co_sized_def
        get_positions_def get_velocities_def get_accelerations_def get_torques_def
        drop_map take_map)
  show ?thesis
    unfolding ALL_VARIABLES
    by (simp add: set_all_state_variables_ok [OF len] seg set_filled_def)
qed (use assms in \<open>simp_all add: set_positions_def set_velocities_def set_accelerations_def
      set_torques_def set_state_variable_ref_def get_size_def co_sized_def get_positions_def
      get_velocities_def get_accelerations_def get_torques_def\<close>)

lemma co_sized_map_variable: "co_sized s \<Longrightarrow> co_sized (map_variable f var s)"
  by (cases var) (simp_all add: co_sized_def set_filled_def)

lemma map_twice:
  "\<forall>x\<in>set v. f (f x) = f x \<Longrightarrow> map f (map f v) = map f v"
  by (induction v) simp_all

lemma map_variable_idem:
  assumes "\<forall>x\<in>set (get_state_variable var s). f (f x) = f x"
  shows "map_variable f var (map_variable f var s) = map_variable f var s"
  using assms
  by (cases var)
     (simp_all add: set_filled_def map_twice get_all_state_variables_def get_positions_def
        get_velocities_def get_accelerations_def get_torques_def ball_Un)

lemma clamp_twice:
  assumes "co_sized s" and "\<forall>x\<in>set (get_state_variable var s). f (f x) = f x"
    and "\<And>t. clamp t = set_state_variable (map f (get_state_variable var t)) var t"
  shows "and_then (clamp s) clamp = clamp s \<and> clamp s = Inr (map_variable f var s)"
  by (simp add: assms(3) set_state_variable_map [OF assms(1)] and_then_def
      set_state_variable_map [OF co_sized_map_variable [OF assms(1)]]
      map_variable_idem [of var s f, OF assms(2)])

text \<open>
  Claim C7, as the code has it, for every rounding of the arithmetic. On a joint
  state whose fields are co-sized to its names, and for every selected state variable:
  \<open>clamp_state_variable\<close> of space/joint/JointState.cpp succeeds, and applied twice
  with the same arguments it gives the same state as applied once, when no coefficient
  of the selected variable is greater than the maximum in absolute value (a
  coefficient is then kept, or set to zero by the dead zone); the one of
  robot/JointState.cpp does so when the maximum absolute value is at least 0 and the
  noise ratio is 0, the maximum, its negation and the coefficients being doubles,
  which the rounding leaves unchanged.
\<close>

theorem clamp_idempotent_without_scaling:
  "(co_sized s \<and> (\<forall>x\<in>set (get_state_variable var s). \<not> \<bar>x\<bar> > mx) \<longrightarrow>
      and_then (clamp_state_variable rnd mx var nr s) (clamp_state_variable rnd mx var nr)
        = clamp_state_variable rnd mx var nr s
      \<and> clamp_state_variable rnd mx var nr s
        = Inr (map_variable (clamp_value rnd mx nr) var s))
   \<and> (co_sized s \<and> Fin 0 \<le> mx \<and> exact rnd mx \<and> exact rnd (- mx)
        \<and> (\<forall>x\<in>set (get_state_variable var s). exact rnd x) \<longrightarrow>
      and_then (robot_clamp_state_variable rnd mx var (Fin 0) s)
          (robot_clamp_state_variable rnd mx var (Fin 0))
        = robot_clamp_state_variable rnd mx var (Fin 0) s
      \<and> robot_clamp_state_variable rnd mx var (Fin 0) s
        = Inr (map_variable (robot_clamp_value rnd mx (Fin 0)) var s))"
proof (intro conjI impI)
  assume h: "co_sized s \<and> (\<forall>x\<in>set (get_state_variable var s). \<not> \<bar>x\<bar> > mx)"
  then have i: "\<forall>x\<in>set (get_state_variable var s).
      clamp_value rnd mx nr (clamp_value rnd mx nr x) = clamp_value rnd mx nr x"
    using clamp_value_idem_unscaled by blast
  from h have c: "co_sized s" by simp
  show "and_then (clamp_state_variable rnd mx var nr s) (clamp_state_variable rnd mx var nr)
        = clamp_state_variable rnd mx var nr s"
    and "clamp_state_variable rnd mx var nr s
        = Inr (map_variable (clamp_value rnd mx nr) var s)"
    using clamp_twice [of s var "clamp_value rnd mx nr" "clamp_state_variable rnd mx var nr",
        OF c i clamp_state_variable_eq]
    by blast+
next
  assume h: "co_sized s \<and> Fin 0 \<le> mx \<and> exact rnd mx \<and> exact rnd (- mx)
        \<and> (\<forall>x\<in>set (get_state_variable var s). exact rnd x)"
  then have i: "\<forall>x\<in>set (get_state_variable var s).
      robot_clamp_value rnd mx (Fin 0) (robot_clamp_value rnd mx (Fin 0) x)
        = robot_clamp_value rnd mx (Fin 0) x"
    using robot_clamp_value_idem by blast
  from h have c: "co_sized s" by simp
  show "and_then (robot_clamp_state_variable rnd mx var (Fin 0) s)
          (robot_clamp_state_variable rnd mx var (Fin 0))
        = robot_clamp_state_variable rnd mx var (Fin 0) s"
    and "robot_clamp_state_variable rnd mx var (Fin 0) s
        = Inr (map_variable (robot_clamp_value rnd mx (Fin 0)) var s)"
    using clamp_twice [of s var "robot_clamp_value rnd mx (Fin 0)"
        "robot_clamp_state_variable rnd mx var (Fin 0)",
        OF c i robot_clamp_state_variable_eq]
    by blast+
qed

lemma co_sized_one_joint: "co_sized (one_joint x)"
  by (simp add: co_sized_def one_joint_def)

lemma map_variable_one_joint:
  "map_variable f POSITIONS (one_joint x) = one_joint (f x)"
  by (simp add: one_joint_def set_filled_def)

lemma positions_one_joint: "get_state_variable POSITIONS (one_joint x) = [x]"
  by (simp add: one_joint_def get_positions_def)

lemma clamp_one_joint:
  "clamp_state_variable rnd mx POSITIONS nr (one_joint x)
     = Inr (one_joint (clamp_value rnd mx nr x))"
  unfolding clamp_state_variable_eq set_state_variable_map [OF co_sized_one_joint]
    map_variable_one_joint ..

lemma robot_clamp_one_joint:
  "robot_clamp_state_variable rnd mx POSITIONS nr (one_joint x)
     = Inr (one_joint (robot_clamp_value rnd mx nr x))"
  unfolding robot_clamp_state_variable_eq set_state_variable_map [OF co_sized_one_joint]
    map_variable_one_joint ..

text \<open>
  With the rounding of binary64 near 0.9, the maximum 8106479329266893 / 2^53 and
  the noise ratio 1/4: the joint at position 1/2 is not above the maximum and not in
  the dead zone, the clamp keeps it, and the second clamp keeps it again. With the
  older clamp, the maximum 2 and the noise ratio 0, position 4 becomes 2 and stays 2.
\<close>

theorem clamp_idempotent_without_scaling_witness:
  "clamp_state_variable binary64_near_nine_tenths (Fin (8106479329266893 / 9007199254740992))
       POSITIONS (Fin (1 / 4)) (one_joint (Fin (1 / 2))) = Inr (one_joint (Fin (1 / 2)))
   \<and> and_then
        (clamp_state_variable binary64_near_nine_tenths
           (Fin (8106479329266893 / 9007199254740992)) POSITIONS (Fin (1 / 4))
           (one_joint (Fin (1 / 2))))
        (clamp_state_variable binary64_near_nine_tenths
           (Fin (8106479329266893 / 9007199254740992)) POSITIONS (Fin (1 / 4)))
      = Inr (one_joint (Fin (1 / 2)))
   \<and> robot_clamp_state_variable Fin (Fin 2) POSITIONS (Fin 0) (one_joint (Fin 4))
        = Inr (one_joint (Fin 2))
   \<and> and_then (robot_clamp_state_variable Fin (Fin 2) POSITIONS (Fin 0) (one_joint (Fin 4)))
        (robot_clamp_state_variable Fin (Fin 2) POSITIONS (Fin 0)) = Inr (one_joint (Fin 2))"
proof -
  let ?m = "Fin (8106479329266893 / 9007199254740992)"
  have h1: "co_sized (one_joint (Fin (1 / 2)))
      \<and> (\<forall>x\<in>set (get_state_variable POSITIONS (one_joint (Fin (1 / 2)))). \<not> \<bar>x\<bar> > ?m)"
    by (simp add: co_sized_one_joint positions_one_joint del: get_state_variable.simps)
  have h2: "co_sized (one_joint (Fin 4)) \<and> Fin 0 \<le> Fin 2 \<and> exact Fin (Fin 2)
      \<and> exact Fin (- Fin 2)
      \<and> (\<forall>x\<in>set (get_state_variable POSITIONS (one_joint (Fin 4))). exact Fin x)"
    by (simp add: co_sized_one_joint positions_one_joint del: get_state_variable.simps)
  have v: "clamp_value binary64_near_nine_tenths ?m (Fin (1 / 4)) (Fin (1 / 2)) = Fin (1 / 2)"
    "robot_clamp_value Fin (Fin 2) (Fin 0) (Fin 4) = Fin 2"
    by (simp_all add: clamp_value_def robot_clamp_value_def binary64_near_nine_tenths_def)
  from clamp_idempotent_without_scaling
         [of "one_joint (Fin (1 / 2))" POSITIONS ?m binary64_near_nine_tenths "Fin (1 / 4)",
          THEN conjunct1, rule_format, OF h1]
  have a: "and_then
        (clamp_state_variable binary64_near_nine_tenths ?m POSITIONS (Fin (1 / 4))
           (one_joint (Fin (1 / 2))))
        (clamp_state_variable binary64_near_nine_tenths ?m POSITIONS (Fin (1 / 4)))
      = clamp_state_variable binary64_near_nine_tenths ?m POSITIONS (Fin (1 / 4))
           (one_joint (Fin (1 / 2)))"
    by blast
  from clamp_idempotent_without_scaling
         [of "one_joint (Fin 4)" POSITIONS "Fin 2" Fin "Fin 0",
          THEN conjunct2, rule_format, OF h2]
  have b: "and_then (robot_clamp_state_variable Fin (Fin 2) POSITIONS (Fin 0) (one_joint (Fin 4)))
        (robot_clamp_state_variable Fin (Fin 2) POSITIONS (Fin 0))
      = robot_clamp_state_variable Fin (Fin 2) POSITIONS (Fin 0) (one_joint (Fin 4))"
    by blast
  have c: "clamp_state_variable binary64_near_nine_tenths ?m POSITIONS (Fin (1 / 4))
       (one_joint (Fin (1 / 2))) = Inr (one_joint (Fin (1 / 2)))"
    "robot_clamp_state_variable Fin (Fin 2) POSITIONS (Fin 0) (one_joint (Fin 4))
        = Inr (one_joint (Fin 2))"
    by (simp_all only: clamp_one_joint robot_clamp_one_joint v)
  note a' = a [THEN trans, OF c(1)] and b' = b [THEN trans, OF c(2)]
  show ?thesis
    by (intro conjI) (rule c(1) a' c(2) b')+
qed

text \<open>
  Claim C7 as stated fails, in three ways. With exact results throughout (the
  maximum 1 and the noise ratio 3/2), the joint at position 2 is clamped to position
  1, and position 1 is then inside the dead zone: the second clamp gives position 0.
  With the rounding of binary64, the maximum 8106479329266893 / 2^53 (the double
  nearest to 0.9) and the noise ratio 1, the joint at position 3 is clamped to
  8106479329266892 / 2^53, one unit in the last place below the maximum and so inside
  the dead zone: the second clamp gives position 0. With the older clamp, the maximum
  10 and the noise ratio 1, position 5 becomes 4 and then 3.
\<close>

theorem clamp_idempotent_counterexample:
  "\<not> is_empty (one_joint (Fin 2))
   \<and> clamp_state_variable Fin (Fin 1) POSITIONS (Fin (3 / 2)) (one_joint (Fin 2))
       = Inr (one_joint (Fin 1))
   \<and> clamp_state_variable Fin (Fin 1) POSITIONS (Fin (3 / 2)) (one_joint (Fin 1))
       = Inr (one_joint (Fin 0))
   \<and> clamp_state_variable binary64_near_nine_tenths
         (Fin (8106479329266893 / 9007199254740992)) POSITIONS (Fin 1) (one_joint (Fin 3))
       = Inr (one_joint (Fin (8106479329266892 / 9007199254740992)))
   \<and> clamp_state_variable binary64_near_nine_tenths
         (Fin (8106479329266893 / 9007199254740992)) POSITIONS (Fin 1)
         (one_joint (Fin (8106479329266892 / 9007199254740992)))
       = Inr (one_joint (Fin 0))
   \<and> robot_clamp_state_variable Fin (Fin 10) POSITIONS (Fin 1) (one_joint (Fin 5))
       = Inr (one_joint (Fin 4))
   \<and> robot_clamp_state_variable Fin (Fin 10) POSITIONS (Fin 1) (one_joint (Fin 4))
       = Inr (one_joint (Fin 3))"
proof -
  have v: "clamp_value Fin (Fin 1) (Fin (3 / 2)) (Fin 2) = Fin 1"
    "clamp_value Fin (Fin 1) (Fin (3 / 2)) (Fin 1) = Fin 0"
    "robot_clamp_value Fin (Fin 10) (Fin 1) (Fin 5) = Fin 4"
    "robot_clamp_value Fin (Fin 10) (Fin 1) (Fin 4) = Fin 3"
    by (simp_all add: clamp_value_def robot_clamp_value_def)
  have w: "clamp_value binary64_near_nine_tenths (Fin (8106479329266893 / 9007199254740992))
        (Fin 1) (Fin 3) = Fin (8106479329266892 / 9007199254740992)"
    "clamp_value binary64_near_nine_tenths (Fin (8106479329266893 / 9007199254740992))
        (Fin 1) (Fin (8106479329266892 / 9007199254740992)) = Fin 0"
    by (simp_all add: clamp_value_def binary64_near_nine_tenths_def)
  have e: "\<not> is_empty (one_joint (Fin 2))"
    by (simp add: is_empty_def one_joint_def)
  show ?thesis
    using e by (simp only: clamp_one_joint robot_clamp_one_joint v w simp_thms)
qed

end
